theory Spec2Isabelle
  imports Complex_Main
begin

section \<open>Text\<close>

text \<open>
  A Python \<open>str\<close> is a sequence of Unicode code points. The program renders a bullet
  (U+2022) and strips Unicode whitespace, so text is modelled as a list of code points
  rather than as a list of 8-bit characters. \<open>lit\<close> reads an ASCII literal of the source.
\<close>

type_synonym pystr = "nat list"

definition lit :: "string \<Rightarrow> pystr" where
  "lit s = map of_char s"

definition nl :: pystr where
  "nl = [10]"

definition bullet :: pystr where
  "bullet = [8226]"

text \<open>
  The code points for which \<open>str.isspace\<close> holds; \<open>str.strip()\<close> without an argument
  removes exactly these from both ends.
\<close>

definition py_isspace :: "nat \<Rightarrow> bool" where
  "py_isspace c \<longleftrightarrow>
     c \<in> {9, 10, 11, 12, 13, 28, 29, 30, 31, 32, 133, 160, 5760,
          8192, 8193, 8194, 8195, 8196, 8197, 8198, 8199, 8200, 8201, 8202,
          8232, 8233, 8239, 8287, 12288}"

definition lstrip :: "pystr \<Rightarrow> pystr" where
  "lstrip s = dropWhile py_isspace s"

definition rstrip :: "pystr \<Rightarrow> pystr" where
  "rstrip s = rev (dropWhile py_isspace (rev s))"

definition strip :: "pystr \<Rightarrow> pystr" where
  "strip s = rstrip (lstrip s)"

text \<open>\<open>sep.join(xs)\<close>.\<close>

fun join :: "pystr \<Rightarrow> pystr list \<Rightarrow> pystr" where
  "join sep [] = []"
| "join sep [x] = x"
| "join sep (x # y # ys) = x @ sep @ join sep (y # ys)"

text \<open>\<open>str(n)\<close> for a non-negative integer: its decimal digits, most significant first.\<close>

fun str_nat :: "nat \<Rightarrow> pystr" where
  "str_nat n = (if n < 10 then [48 + n] else str_nat (n div 10) @ [48 + n mod 10])"

declare str_nat.simps [simp del]

section \<open>Exceptions and result values\<close>

text \<open>
  The exceptions that reach an \<open>except Exception\<close> handler, each with the text
  \<open>str()\<close> gives for it: the \<open>ValueError\<close> a validation raises, the
  \<open>AttributeError\<close> of an attribute read on \<open>None\<close>, and whatever an external
  library raises.
\<close>

datatype exn = ValueError pystr | AttributeError pystr | EngineError pystr

fun str_exn :: "exn \<Rightarrow> pystr" where
  "str_exn (ValueError m) = m"
| "str_exn (AttributeError m) = m"
| "str_exn (EngineError m) = m"

text \<open>
  The values the tool operations return: dictionaries keep their insertion order, so a
  dictionary is an association list. Keys are the ASCII literals of the source.
\<close>

datatype json =
    JBool bool
  | JInt int
  | JStr pystr
  | JList "json list"
  | JDict "(string \<times> json) list"

fun dict_get :: "json \<Rightarrow> string \<Rightarrow> json option" where
  "dict_get (JDict kvs) k = map_of kvs k"
| "dict_get _ k = None"

fun dict_keys :: "json \<Rightarrow> string list" where
  "dict_keys (JDict kvs) = map fst kvs"
| "dict_keys _ = []"

section \<open>The external engines\<close>

text \<open>
  Modelled from the spec: the objects the educhain library returns are not part of this
  repository. A question item has the four attributes the program reads, a lesson plan
  has the eight; the question engine's response carries its items in \<open>questions\<close>.
\<close>

record question_item =
  question :: pystr
  options :: "pystr list"
  correct_answer :: pystr
  explanation :: pystr

record question_list =
  questions :: "question_item list"

record lesson_plan =
  title :: pystr
  objectives :: "pystr list"
  materials :: "pystr list"
  introduction :: pystr
  main_content :: pystr
  activities :: "pystr list"
  assessment :: pystr
  conclusion :: pystr

text \<open>
  The keyword arguments of \<open>qna_engine.generate_questions\<close> and of
  \<open>content_engine.generate_lesson_plan\<close>; an argument a call site does not pass is \<open>None\<close>.
\<close>

record qna_request =
  q_topic :: pystr
  q_num :: int
  q_question_type :: pystr
  q_difficulty_level :: pystr
  q_custom_instructions :: "pystr option"
  q_prompt_template :: "pystr option"

record lesson_request =
  l_topic :: pystr
  l_duration :: pystr
  l_grade_level :: pystr
  l_learning_objectives :: "pystr list option"

datatype call = GenerateQuestions qna_request | GenerateLessonPlan lesson_request

text \<open>
  The client is a parameter: each engine either raises or returns a response. Every
  operation returns, next to its result, the list of engine calls it made.
\<close>

record educhain_client =
  qna_engine :: "qna_request \<Rightarrow> exn + question_list"
  content_engine :: "lesson_request \<Rightarrow> exn + lesson_plan"

definition generate_questions ::
  "educhain_client \<Rightarrow> qna_request \<Rightarrow> (exn + question_list) \<times> call list" where
  "generate_questions client rq = (qna_engine client rq, [GenerateQuestions rq])"

definition engine_generate_lesson_plan ::
  "educhain_client \<Rightarrow> lesson_request \<Rightarrow> (exn + lesson_plan) \<times> call list" where
  "engine_generate_lesson_plan client rq = (content_engine client rq, [GenerateLessonPlan rq])"

text \<open>The mapping every tool operation's \<open>except\<close> handler returns.\<close>

definition failure :: "exn \<Rightarrow> pystr \<Rightarrow> json" where
  "failure e topic =
     JDict [(''success'', JBool False), (''error'', JStr (str_exn e)), (''topic'', JStr topic)]"

definition handle_tool :: "pystr \<Rightarrow> (exn + json) \<times> call list \<Rightarrow> json \<times> call list" where
  "handle_tool topic r =
     (case r of (Inl e, tr) \<Rightarrow> (failure e topic, tr) | (Inr v, tr) \<Rightarrow> (v, tr))"

section \<open>Tool operations\<close>

subsection \<open>\<open>generate_mcq\<close>\<close>

text \<open>
  The \<open>for i, q in enumerate(questions.questions, 1)\<close> loop, appending one entry per
  item to \<open>result["questions"]\<close>; \<open>i\<close> is the running number, \<open>acc\<close> the list so far.
\<close>

fun mcq_entries :: "nat \<Rightarrow> question_item list \<Rightarrow> json list \<Rightarrow> json list" where
  "mcq_entries i [] acc = acc"
| "mcq_entries i (q # qs) acc =
     mcq_entries (Suc i) qs
       (acc @ [JDict [(''question_number'', JInt (int i)),
                      (''question'', JStr (question q)),
                      (''options'', JList (map JStr (options q))),
                      (''correct_answer'', JStr (correct_answer q)),
                      (''explanation'', JStr (explanation q))]])"

text \<open>The body of the \<open>try\<close> block: \<open>Inl\<close> is a raised exception.\<close>

definition generate_mcq_try ::
  "educhain_client \<Rightarrow> pystr \<Rightarrow> int \<Rightarrow> pystr \<Rightarrow> pystr \<Rightarrow> (exn + json) \<times> call list" where
  "generate_mcq_try client topic num_questions difficulty_level custom_instructions =
     (if strip topic = [] then
        (Inl (ValueError (lit ''Topic cannot be empty'')), [])
      else if num_questions < 1 \<or> num_questions > 10 then
        (Inl (ValueError (lit ''Number of questions must be between 1 and 10'')), [])
      else
        (case generate_questions client
                \<lparr>q_topic = topic, q_num = num_questions,
                 q_question_type = lit ''Multiple Choice'',
                 q_difficulty_level = difficulty_level,
                 q_custom_instructions = Some custom_instructions,
                 q_prompt_template = None\<rparr> of
           (Inl e, tr) \<Rightarrow> (Inl e, tr)
         | (Inr qs, tr) \<Rightarrow>
             (Inr (JDict [(''success'', JBool True),
                          (''topic'', JStr topic),
                          (''num_questions'', JInt (int (length (questions qs)))),
                          (''difficulty_level'', JStr difficulty_level),
                          (''questions'', JList (mcq_entries 1 (questions qs) []))]),
              tr)))"

definition generate_mcq ::
  "educhain_client \<Rightarrow> pystr \<Rightarrow> int \<Rightarrow> pystr \<Rightarrow> pystr \<Rightarrow> json \<times> call list" where
  "generate_mcq client topic num_questions difficulty_level custom_instructions =
     handle_tool topic
       (generate_mcq_try client topic num_questions difficulty_level custom_instructions)"

subsection \<open>\<open>generate_lesson_plan\<close>\<close>

definition generate_lesson_plan_try ::
  "educhain_client \<Rightarrow> pystr \<Rightarrow> pystr \<Rightarrow> pystr \<Rightarrow> pystr list option
     \<Rightarrow> (exn + json) \<times> call list" where
  "generate_lesson_plan_try client topic duration grade_level learning_objectives =
     (if strip topic = [] then
        (Inl (ValueError (lit ''Topic cannot be empty'')), [])
      else
        (case engine_generate_lesson_plan client
                \<lparr>l_topic = topic, l_duration = duration, l_grade_level = grade_level,
                 l_learning_objectives =
                   Some (case learning_objectives of
                           None \<Rightarrow> [] | Some los \<Rightarrow> los)\<rparr> of
           (Inl e, tr) \<Rightarrow> (Inl e, tr)
         | (Inr lesson, tr) \<Rightarrow>
             (Inr (JDict [(''success'', JBool True),
                          (''topic'', JStr topic),
                          (''duration'', JStr duration),
                          (''grade_level'', JStr grade_level),
                          (''lesson_plan'',
                             JDict [(''title'', JStr (title lesson)),
                                    (''objectives'', JList (map JStr (objectives lesson))),
                                    (''materials'', JList (map JStr (materials lesson))),
                                    (''introduction'', JStr (introduction lesson)),
                                    (''main_content'', JStr (main_content lesson)),
                                    (''activities'', JList (map JStr (activities lesson))),
                                    (''assessment'', JStr (assessment lesson)),
                                    (''conclusion'', JStr (conclusion lesson))])]),
              tr)))"

definition generate_lesson_plan ::
  "educhain_client \<Rightarrow> pystr \<Rightarrow> pystr \<Rightarrow> pystr \<Rightarrow> pystr list option \<Rightarrow> json \<times> call list" where
  "generate_lesson_plan client topic duration grade_level learning_objectives =
     handle_tool topic
       (generate_lesson_plan_try client topic duration grade_level learning_objectives)"

subsection \<open>\<open>generate_flashcards\<close>\<close>

text \<open>
  Every line inside the triple-quoted literals of the source starts with sixteen spaces,
  the blank ones included.
\<close>

definition indent :: pystr where
  "indent = replicate 16 32"

text \<open>The template is a plain literal, not an f-string: its braces are passed on as written.\<close>

definition custom_template :: pystr where
  "custom_template = concat
     [nl, indent, lit ''Generate {num} flashcards for the topic: {topic}'',
      nl, indent, lit ''Difficulty level: {difficulty_level}'',
      nl, indent, lit ''Card type: {card_type}'',
      nl, indent,
      nl, indent, lit ''Format each flashcard with:'',
      nl, indent, lit ''- Front: Question or term'',
      nl, indent, lit ''- Back: Answer or definition'',
      nl, indent, lit ''- Category: Subject category'',
      nl, indent,
      nl, indent,
        lit ''Make sure the flashcards are educational and appropriate for the difficulty level.'',
      nl, indent]"

fun flashcard_entries ::
  "pystr \<Rightarrow> pystr \<Rightarrow> nat \<Rightarrow> question_item list \<Rightarrow> json list \<Rightarrow> json list" where
  "flashcard_entries topic difficulty_level i [] acc = acc"
| "flashcard_entries topic difficulty_level i (q # qs) acc =
     flashcard_entries topic difficulty_level (Suc i) qs
       (acc @ [JDict [(''card_number'', JInt (int i)),
                      (''front'', JStr (question q)),
                      (''back'', JStr (correct_answer q)),
                      (''category'', JStr topic),
                      (''difficulty'', JStr difficulty_level)]])"

definition generate_flashcards_try ::
  "educhain_client \<Rightarrow> pystr \<Rightarrow> int \<Rightarrow> pystr \<Rightarrow> pystr \<Rightarrow> (exn + json) \<times> call list" where
  "generate_flashcards_try client topic num_cards difficulty_level card_type =
     (if strip topic = [] then
        (Inl (ValueError (lit ''Topic cannot be empty'')), [])
      else if num_cards < 1 \<or> num_cards > 20 then
        (Inl (ValueError (lit ''Number of cards must be between 1 and 20'')), [])
      else
        (case generate_questions client
                \<lparr>q_topic = topic, q_num = num_cards,
                 q_question_type = lit ''Short Answer'',
                 q_difficulty_level = difficulty_level,
                 q_custom_instructions =
                   Some (lit ''Create '' @ card_type @ lit '' flashcards''),
                 q_prompt_template = Some custom_template\<rparr> of
           (Inl e, tr) \<Rightarrow> (Inl e, tr)
         | (Inr qs, tr) \<Rightarrow>
             (Inr (JDict [(''success'', JBool True),
                          (''topic'', JStr topic),
                          (''num_cards'', JInt (int (length (questions qs)))),
                          (''difficulty_level'', JStr difficulty_level),
                          (''card_type'', JStr card_type),
                          (''flashcards'',
                             JList (flashcard_entries topic difficulty_level 1
                                      (questions qs) []))]),
              tr)))"

definition generate_flashcards ::
  "educhain_client \<Rightarrow> pystr \<Rightarrow> int \<Rightarrow> pystr \<Rightarrow> pystr \<Rightarrow> json \<times> call list" where
  "generate_flashcards client topic num_cards difficulty_level card_type =
     handle_tool topic
       (generate_flashcards_try client topic num_cards difficulty_level card_type)"

section \<open>Resource operations\<close>

subsection \<open>\<open>get_topic_overview\<close>\<close>

text \<open>
  The returned f-string, piece by piece in source order; \<open>chr(10)\<close> is the newline the
  bullet items are joined with.
\<close>

definition get_topic_overview :: "educhain_client \<Rightarrow> pystr \<Rightarrow> pystr \<times> call list" where
  "get_topic_overview client topic =
     (case engine_generate_lesson_plan client
             \<lparr>l_topic = topic, l_duration = lit ''Overview'',
              l_grade_level = lit ''General'', l_learning_objectives = None\<rparr> of
        (Inl e, tr) \<Rightarrow>
          (lit ''Error retrieving overview for '' @ topic @ lit '': '' @ str_exn e, tr)
      | (Inr overview, tr) \<Rightarrow>
          (concat
             [nl, indent, lit ''Topic Overview: '', topic,
              nl, indent,
              nl, indent, lit ''Description: '', introduction overview,
              nl, indent,
              nl, indent, lit ''Key Concepts:'',
              nl, indent,
                join nl (map (\<lambda>obj. bullet @ lit '' '' @ obj) (objectives overview)),
              nl, indent,
              nl, indent, lit ''Materials Needed:'',
              nl, indent,
                join nl (map (\<lambda>mat. bullet @ lit '' '' @ mat) (materials overview)),
              nl, indent,
              nl, indent, lit ''Assessment Methods:'',
              nl, indent, assessment overview,
              nl, indent],
           tr))"

subsection \<open>\<open>get_sample_questions\<close>\<close>

text \<open>The inner loop \<open>for j, option in enumerate(q.options, 1)\<close>, extending \<open>result\<close>.\<close>

fun render_options :: "nat \<Rightarrow> pystr list \<Rightarrow> pystr \<Rightarrow> pystr" where
  "render_options j [] result = result"
| "render_options j (opt # opts) result =
     render_options (Suc j) opts (result @ lit ''  '' @ str_nat j @ lit ''. '' @ opt @ nl)"

text \<open>The outer loop \<open>for i, q in enumerate(questions.questions, 1)\<close>.\<close>

fun render_questions :: "nat \<Rightarrow> question_item list \<Rightarrow> pystr \<Rightarrow> pystr" where
  "render_questions i [] result = result"
| "render_questions i (q # qs) result =
     (let r1 = result @ lit ''Question '' @ str_nat i @ lit '': '' @ question q @ nl;
          r2 = render_options 1 (options q) r1;
          r3 = r2 @ lit ''Correct Answer: '' @ correct_answer q @ nl;
          r4 = r3 @ lit ''Explanation: '' @ explanation q @ nl @ nl
      in render_questions (Suc i) qs r4)"

definition get_sample_questions :: "educhain_client \<Rightarrow> pystr \<Rightarrow> pystr \<times> call list" where
  "get_sample_questions client topic =
     (case generate_questions client
             \<lparr>q_topic = topic, q_num = 3,
              q_question_type = lit ''Multiple Choice'',
              q_difficulty_level = lit ''Medium'',
              q_custom_instructions = None,
              q_prompt_template = None\<rparr> of
        (Inl e, tr) \<Rightarrow>
          (lit ''Error retrieving sample questions for '' @ topic @ lit '': '' @ str_exn e, tr)
      | (Inr qs, tr) \<Rightarrow>
          (render_questions 1 (questions qs)
             (lit ''Sample Questions for: '' @ topic @ nl @ nl),
           tr))"

section \<open>Start-up\<close>

text \<open>
  The process environment as \<open>os.getenv\<close> sees it once \<open>load_dotenv()\<close> has run, and
  the constructors of the external libraries, each of which may raise. The FastMCP
  object is modelled by what this program does with it: its name, the tools and
  resources registered on it, in order.
\<close>

type_synonym environ = "string \<rightharpoonup> pystr"

record gemini_settings =
  model :: pystr
  google_api_key :: pystr
  temperature :: rat
  max_tokens :: int

record fastmcp =
  server_name :: pystr
  tools :: "string list"
  resources :: "string list"

record ('m, 'c) libraries =
  ChatGoogleGenerativeAI :: "gemini_settings \<Rightarrow> exn + 'm"
  LLMConfig :: "'m \<Rightarrow> exn + 'c"
  Educhain :: "'c \<Rightarrow> exn + educhain_client"
  FastMCP :: "pystr \<Rightarrow> exn + fastmcp"

record 'm server =
  gemini_model :: "'m option"
  educhain_client :: "educhain_client option"
  mcp_server :: "fastmcp option"

text \<open>
  \<open>_initialize_components\<close>: \<open>not api_key\<close> holds for \<open>None\<close> and for the empty
  string. The \<open>except\<close> clause logs and raises the same exception again.
\<close>

definition initialize_components ::
  "('m, 'c) libraries \<Rightarrow> environ \<Rightarrow> 'm server \<Rightarrow> exn + 'm server" where
  "initialize_components libs env self =
     (let api_key = env ''GOOGLE_API_KEY'' in
      if api_key = None \<or> api_key = Some [] then
        Inl (ValueError (lit ''GOOGLE_API_KEY environment variable not set''))
      else
        (case ChatGoogleGenerativeAI libs
                \<lparr>model = lit ''gemini-2.0-flash-exp'', google_api_key = the api_key,
                 temperature = 7 / 10, max_tokens = 2048\<rparr> of
           Inl e \<Rightarrow> Inl e
         | Inr gm \<Rightarrow>
             (case LLMConfig libs gm of
                Inl e \<Rightarrow> Inl e
              | Inr gemini_config \<Rightarrow>
                  (case Educhain libs gemini_config of
                     Inl e \<Rightarrow> Inl e
                   | Inr client \<Rightarrow>
                       (case FastMCP libs (lit ''EduChain Educational Content Server'') of
                          Inl e \<Rightarrow> Inl e
                        | Inr mcp \<Rightarrow>
                            Inr (self\<lparr>gemini_model := Some gm,
                                      educhain_client := Some client,
                                      mcp_server := Some mcp\<rparr>))))))"

text \<open>\<open>__init__\<close>: the three attributes start as \<open>None\<close>.\<close>

definition EduChainMCPServer :: "('m, 'c) libraries \<Rightarrow> environ \<Rightarrow> exn + 'm server" where
  "EduChainMCPServer libs env =
     initialize_components libs env
       \<lparr>gemini_model = None, educhain_client = None, mcp_server = None\<rparr>"

text \<open>
  The decorators \<open>@self.mcp_server.tool()\<close> and \<open>@self.mcp_server.resource(uri)\<close>
  register the function below them; on \<open>None\<close> the attribute read raises.
\<close>

definition none_has_no_attribute :: "string \<Rightarrow> pystr" where
  "none_has_no_attribute a =
     [39] @ lit ''NoneType'' @ [39] @ lit '' object has no attribute '' @ [39] @ lit a @ [39]"

definition register_tool :: "string \<Rightarrow> 'm server \<Rightarrow> exn + 'm server" where
  "register_tool name self =
     (case mcp_server self of
        None \<Rightarrow> Inl (AttributeError (none_has_no_attribute ''tool''))
      | Some mcp \<Rightarrow> Inr (self\<lparr>mcp_server := Some (mcp\<lparr>tools := tools mcp @ [name]\<rparr>)\<rparr>))"

definition register_resource :: "string \<Rightarrow> 'm server \<Rightarrow> exn + 'm server" where
  "register_resource uri self =
     (case mcp_server self of
        None \<Rightarrow> Inl (AttributeError (none_has_no_attribute ''resource''))
      | Some mcp \<Rightarrow> Inr (self\<lparr>mcp_server := Some (mcp\<lparr>resources := resources mcp @ [uri]\<rparr>)\<rparr>))"

definition setup_tools :: "'m server \<Rightarrow> exn + 'm server" where
  "setup_tools self =
     (case register_tool ''generate_mcq'' self of
        Inl e \<Rightarrow> Inl e
      | Inr s1 \<Rightarrow>
          (case register_tool ''generate_lesson_plan'' s1 of
             Inl e \<Rightarrow> Inl e
           | Inr s2 \<Rightarrow> register_tool ''generate_flashcards'' s2))"

definition setup_resources :: "'m server \<Rightarrow> exn + 'm server" where
  "setup_resources self =
     (case register_resource ''educhain://topic/{topic}'' self of
        Inl e \<Rightarrow> Inl e
      | Inr s1 \<Rightarrow> register_resource ''educhain://questions/{topic}'' s1)"

text \<open>
  \<open>run_server\<close> registers everything and then enters \<open>mcp_server.run()\<close>, which
  serves what is registered; the main block turns any exception into \<open>exit(1)\<close>.
\<close>

datatype outcome = Serving fastmcp | Exit int

definition run_server :: "'m server \<Rightarrow> exn + outcome" where
  "run_server self =
     (case setup_tools self of
        Inl e \<Rightarrow> Inl e
      | Inr s1 \<Rightarrow>
          (case setup_resources s1 of
             Inl e \<Rightarrow> Inl e
           | Inr s2 \<Rightarrow>
               (case mcp_server s2 of
                  None \<Rightarrow> Inl (AttributeError (none_has_no_attribute ''run''))
                | Some mcp \<Rightarrow> Inr (Serving mcp))))"

definition main :: "('m, 'c) libraries \<Rightarrow> environ \<Rightarrow> outcome" where
  "main libs env =
     (case EduChainMCPServer libs env of
        Inl e \<Rightarrow> Exit 1
      | Inr server \<Rightarrow>
          (case run_server server of
             Inl e \<Rightarrow> Exit 1
           | Inr out \<Rightarrow> out))"

section \<open>Stub engines\<close>

text \<open>
  Three concrete clients to run the operations on: one whose engines answer with two
  question items and a lesson plan, one whose engines raise, and one that answers with
  the same questions under different options and explanations.
\<close>

definition stub_items :: "question_item list" where
  "stub_items =
     [\<lparr>question = lit ''What do plants absorb?'',
       options = [lit ''Light'', lit ''Sound''],
       correct_answer = lit ''Light'',
       explanation = lit ''Chlorophyll absorbs light.''\<rparr>,
      \<lparr>question = lit ''Which gas is released?'',
       options = [lit ''Oxygen'', lit ''Helium'', lit ''Neon''],
       correct_answer = lit ''Oxygen'',
       explanation = lit ''Water is split.''\<rparr>]"

definition stub_lesson :: lesson_plan where
  "stub_lesson =
     \<lparr>title = lit ''Photosynthesis'',
      objectives = [lit ''Define it'', lit ''Explain it''],
      materials = [lit ''Leaf'', lit ''Lamp'', lit ''Water''],
      introduction = lit ''Plants make sugar.'',
      main_content = lit ''Light reactions'',
      activities = [lit ''Experiment''],
      assessment = lit ''Quiz'',
      conclusion = lit ''Recap''\<rparr>"

definition stub_client :: educhain_client where
  "stub_client =
     \<lparr>qna_engine = (\<lambda>rq. Inr \<lparr>questions = stub_items\<rparr>),
      content_engine = (\<lambda>rq. Inr stub_lesson)\<rparr>"

definition raising_client :: educhain_client where
  "raising_client =
     \<lparr>qna_engine = (\<lambda>rq. Inl (EngineError (lit ''quota exceeded''))),
      content_engine = (\<lambda>rq. Inl (EngineError (lit ''quota exceeded'')))\<rparr>"

definition other_client :: educhain_client where
  "other_client =
     \<lparr>qna_engine =
        (\<lambda>rq. Inr \<lparr>questions =
                     map (\<lambda>q. q\<lparr>options := [], explanation := lit ''n/a''\<rparr>) stub_items\<rparr>),
      content_engine = (\<lambda>rq. Inr stub_lesson)\<rparr>"

definition stub_libraries :: "(gemini_settings, gemini_settings) libraries" where
  "stub_libraries =
     \<lparr>ChatGoogleGenerativeAI = Inr, LLMConfig = Inr, Educhain = (\<lambda>c. Inr stub_client),
      FastMCP = (\<lambda>name. Inr \<lparr>server_name = name, tools = [], resources = []\<rparr>)\<rparr>"

section \<open>Validation and failure handling\<close>

lemma all_space_dropWhile:
  "(\<forall>c\<in>set (dropWhile P s). P c) \<longleftrightarrow> (\<forall>c\<in>set s. P c)"
  by (induction s) auto

lemma strip_empty_iff: "strip s = [] \<longleftrightarrow> (\<forall>c\<in>set s. py_isspace c)"
  by (simp add: strip_def lstrip_def rstrip_def dropWhile_eq_Nil_conv all_space_dropWhile)

lemmas tool_defs =
  generate_mcq_def generate_mcq_try_def generate_lesson_plan_def generate_lesson_plan_try_def
  generate_flashcards_def generate_flashcards_try_def handle_tool_def failure_def
  generate_questions_def engine_generate_lesson_plan_def

lemma generate_mcq_blank:
  "strip topic = [] \<Longrightarrow>
   generate_mcq client topic n d ci =
     (JDict [(''success'', JBool False), (''error'', JStr (lit ''Topic cannot be empty'')),
             (''topic'', JStr topic)], [])"
  by (simp add: tool_defs)

lemma generate_lesson_plan_blank:
  "strip topic = [] \<Longrightarrow>
   generate_lesson_plan client topic du g lo =
     (JDict [(''success'', JBool False), (''error'', JStr (lit ''Topic cannot be empty'')),
             (''topic'', JStr topic)], [])"
  by (simp add: tool_defs)

lemma generate_flashcards_blank:
  "strip topic = [] \<Longrightarrow>
   generate_flashcards client topic n d ct =
     (JDict [(''success'', JBool False), (''error'', JStr (lit ''Topic cannot be empty'')),
             (''topic'', JStr topic)], [])"
  by (simp add: tool_defs)

lemma generate_mcq_range:
  "strip topic \<noteq> [] \<Longrightarrow> n < 1 \<or> n > 10 \<Longrightarrow>
   generate_mcq client topic n d ci =
     (JDict [(''success'', JBool False),
             (''error'', JStr (lit ''Number of questions must be between 1 and 10'')),
             (''topic'', JStr topic)], [])"
  by (auto simp add: tool_defs)

lemma generate_flashcards_range:
  "strip topic \<noteq> [] \<Longrightarrow> n < 1 \<or> n > 20 \<Longrightarrow>
   generate_flashcards client topic n d ct =
     (JDict [(''success'', JBool False),
             (''error'', JStr (lit ''Number of cards must be between 1 and 20'')),
             (''topic'', JStr topic)], [])"
  by (auto simp add: tool_defs)

lemma generate_mcq_engine:
  "strip topic \<noteq> [] \<Longrightarrow> 1 \<le> n \<Longrightarrow> n \<le> 10 \<Longrightarrow>
   generate_mcq client topic n d ci =
     (case qna_engine client
             \<lparr>q_topic = topic, q_num = n, q_question_type = lit ''Multiple Choice'',
              q_difficulty_level = d, q_custom_instructions = Some ci,
              q_prompt_template = None\<rparr> of
        Inl e \<Rightarrow> JDict [(''success'', JBool False), (''error'', JStr (str_exn e)),
                        (''topic'', JStr topic)]
      | Inr qs \<Rightarrow> JDict [(''success'', JBool True), (''topic'', JStr topic),
                        (''num_questions'', JInt (int (length (questions qs)))),
                        (''difficulty_level'', JStr d),
                        (''questions'', JList (mcq_entries 1 (questions qs) []))],
      [GenerateQuestions
         \<lparr>q_topic = topic, q_num = n, q_question_type = lit ''Multiple Choice'',
          q_difficulty_level = d, q_custom_instructions = Some ci,
          q_prompt_template = None\<rparr>])"
  by (auto simp add: tool_defs split: sum.splits)

lemma generate_flashcards_engine:
  "strip topic \<noteq> [] \<Longrightarrow> 1 \<le> n \<Longrightarrow> n \<le> 20 \<Longrightarrow>
   generate_flashcards client topic n d ct =
     (case qna_engine client
             \<lparr>q_topic = topic, q_num = n, q_question_type = lit ''Short Answer'',
              q_difficulty_level = d,
              q_custom_instructions = Some (lit ''Create '' @ ct @ lit '' flashcards''),
              q_prompt_template = Some custom_template\<rparr> of
        Inl e \<Rightarrow> JDict [(''success'', JBool False), (''error'', JStr (str_exn e)),
                        (''topic'', JStr topic)]
      | Inr qs \<Rightarrow> JDict [(''success'', JBool True), (''topic'', JStr topic),
                        (''num_cards'', JInt (int (length (questions qs)))),
                        (''difficulty_level'', JStr d),
                        (''card_type'', JStr ct),
                        (''flashcards'', JList (flashcard_entries topic d 1 (questions qs) []))],
      [GenerateQuestions
         \<lparr>q_topic = topic, q_num = n, q_question_type = lit ''Short Answer'',
          q_difficulty_level = d,
          q_custom_instructions = Some (lit ''Create '' @ ct @ lit '' flashcards''),
          q_prompt_template = Some custom_template\<rparr>])"
  by (auto simp add: tool_defs split: sum.splits)

lemma generate_lesson_plan_engine:
  "strip topic \<noteq> [] \<Longrightarrow>
   generate_lesson_plan client topic du g lo =
     (case content_engine client
             \<lparr>l_topic = topic, l_duration = du, l_grade_level = g,
              l_learning_objectives = Some (case lo of None \<Rightarrow> [] | Some los \<Rightarrow> los)\<rparr> of
        Inl e \<Rightarrow> JDict [(''success'', JBool False), (''error'', JStr (str_exn e)),
                        (''topic'', JStr topic)]
      | Inr lesson \<Rightarrow>
          JDict [(''success'', JBool True), (''topic'', JStr topic),
                 (''duration'', JStr du), (''grade_level'', JStr g),
                 (''lesson_plan'',
                    JDict [(''title'', JStr (title lesson)),
                           (''objectives'', JList (map JStr (objectives lesson))),
                           (''materials'', JList (map JStr (materials lesson))),
                           (''introduction'', JStr (introduction lesson)),
                           (''main_content'', JStr (main_content lesson)),
                           (''activities'', JList (map JStr (activities lesson))),
                           (''assessment'', JStr (assessment lesson)),
                           (''conclusion'', JStr (conclusion lesson))])],
      [GenerateLessonPlan
         \<lparr>l_topic = topic, l_duration = du, l_grade_level = g,
          l_learning_objectives = Some (case lo of None \<Rightarrow> [] | Some los \<Rightarrow> los)\<rparr>])"
  by (auto simp add: tool_defs split: sum.splits)

lemma get_topic_overview_calls:
  "snd (get_topic_overview client topic) =
     [GenerateLessonPlan
        \<lparr>l_topic = topic, l_duration = lit ''Overview'', l_grade_level = lit ''General'',
         l_learning_objectives = None\<rparr>]"
  by (simp add: get_topic_overview_def engine_generate_lesson_plan_def split: sum.splits)

lemma get_sample_questions_calls:
  "snd (get_sample_questions client topic) =
     [GenerateQuestions
        \<lparr>q_topic = topic, q_num = 3, q_question_type = lit ''Multiple Choice'',
         q_difficulty_level = lit ''Medium'', q_custom_instructions = None,
         q_prompt_template = None\<rparr>]"
  by (simp add: get_sample_questions_def generate_questions_def split: sum.splits)

lemma get_sample_questions_raises:
  "qna_engine client
     \<lparr>q_topic = topic, q_num = 3, q_question_type = lit ''Multiple Choice'',
      q_difficulty_level = lit ''Medium'', q_custom_instructions = None,
      q_prompt_template = None\<rparr> = Inl e \<Longrightarrow>
   fst (get_sample_questions client topic) =
     lit ''Error retrieving sample questions for '' @ topic @ lit '': '' @ str_exn e"
  by (simp add: get_sample_questions_def generate_questions_def)

text \<open>
  Claim C2. Whenever the validation of a tool operation raises (blank topic, count out
  of range) or the engine call raises an exception \<open>e\<close>, the operation returns exactly
  the mapping \<open>{success: False, error: str(e), topic: topic}\<close>. The \<open>error\<close> entry is the
  exception's own text, so it is non-empty whenever the engine's message is.
\<close>
theorem tool_exceptions_become_failure_mapping:
  "(strip topic = [] \<longrightarrow>
      fst (generate_mcq client topic n d ci) =
        JDict [(''success'', JBool False), (''error'', JStr (lit ''Topic cannot be empty'')),
               (''topic'', JStr topic)]
    \<and> fst (generate_lesson_plan client topic du g lo) =
        JDict [(''success'', JBool False), (''error'', JStr (lit ''Topic cannot be empty'')),
               (''topic'', JStr topic)]
    \<and> fst (generate_flashcards client topic m d ct) =
        JDict [(''success'', JBool False), (''error'', JStr (lit ''Topic cannot be empty'')),
               (''topic'', JStr topic)])
   \<and> (strip topic \<noteq> [] \<longrightarrow>
        (n < 1 \<or> n > 10 \<longrightarrow>
           fst (generate_mcq client topic n d ci) =
             JDict [(''success'', JBool False),
                    (''error'', JStr (lit ''Number of questions must be between 1 and 10'')),
                    (''topic'', JStr topic)])
      \<and> (m < 1 \<or> m > 20 \<longrightarrow>
           fst (generate_flashcards client topic m d ct) =
             JDict [(''success'', JBool False),
                    (''error'', JStr (lit ''Number of cards must be between 1 and 20'')),
                    (''topic'', JStr topic)])
      \<and> (1 \<le> n \<and> n \<le> 10 \<and>
           qna_engine client
             \<lparr>q_topic = topic, q_num = n, q_question_type = lit ''Multiple Choice'',
              q_difficulty_level = d, q_custom_instructions = Some ci,
              q_prompt_template = None\<rparr> = Inl e \<longrightarrow>
           fst (generate_mcq client topic n d ci) =
             JDict [(''success'', JBool False), (''error'', JStr (str_exn e)),
                    (''topic'', JStr topic)])
      \<and> (content_engine client
             \<lparr>l_topic = topic, l_duration = du, l_grade_level = g,
              l_learning_objectives = Some (case lo of None \<Rightarrow> [] | Some los \<Rightarrow> los)\<rparr> = Inl e' \<longrightarrow>
           fst (generate_lesson_plan client topic du g lo) =
             JDict [(''success'', JBool False), (''error'', JStr (str_exn e')),
                    (''topic'', JStr topic)])
      \<and> (1 \<le> m \<and> m \<le> 20 \<and>
           qna_engine client
             \<lparr>q_topic = topic, q_num = m, q_question_type = lit ''Short Answer'',
              q_difficulty_level = d,
              q_custom_instructions = Some (lit ''Create '' @ ct @ lit '' flashcards''),
              q_prompt_template = Some custom_template\<rparr> = Inl e'' \<longrightarrow>
           fst (generate_flashcards client topic m d ct) =
             JDict [(''success'', JBool False), (''error'', JStr (str_exn e'')),
                    (''topic'', JStr topic)]))"
proof (intro conjI impI)
  assume "strip topic = []"
  then show "fst (generate_mcq client topic n d ci) =
        JDict [(''success'', JBool False), (''error'', JStr (lit ''Topic cannot be empty'')),
               (''topic'', JStr topic)]"
    by (simp add: generate_mcq_blank)
next
  assume "strip topic = []"
  then show "fst (generate_lesson_plan client topic du g lo) =
        JDict [(''success'', JBool False), (''error'', JStr (lit ''Topic cannot be empty'')),
               (''topic'', JStr topic)]"
    by (simp add: generate_lesson_plan_blank)
next
  assume "strip topic = []"
  then show "fst (generate_flashcards client topic m d ct) =
        JDict [(''success'', JBool False), (''error'', JStr (lit ''Topic cannot be empty'')),
               (''topic'', JStr topic)]"
    by (simp add: generate_flashcards_blank)
next
  assume "strip topic \<noteq> []" "n < 1 \<or> n > 10"
  then show "fst (generate_mcq client topic n d ci) =
             JDict [(''success'', JBool False),
                    (''error'', JStr (lit ''Number of questions must be between 1 and 10'')),
                    (''topic'', JStr topic)]"
    by (simp add: generate_mcq_range)
next
  assume "strip topic \<noteq> []" "m < 1 \<or> m > 20"
  then show "fst (generate_flashcards client topic m d ct) =
             JDict [(''success'', JBool False),
                    (''error'', JStr (lit ''Number of cards must be between 1 and 20'')),
                    (''topic'', JStr topic)]"
    by (simp add: generate_flashcards_range)
next
  assume "strip topic \<noteq> []"
    "1 \<le> n \<and> n \<le> 10 \<and>
           qna_engine client
             \<lparr>q_topic = topic, q_num = n, q_question_type = lit ''Multiple Choice'',
              q_difficulty_level = d, q_custom_instructions = Some ci,
              q_prompt_template = None\<rparr> = Inl e"
  then show "fst (generate_mcq client topic n d ci) =
             JDict [(''success'', JBool False), (''error'', JStr (str_exn e)),
                    (''topic'', JStr topic)]"
    by (simp add: generate_mcq_engine)
next
  assume "strip topic \<noteq> []"
    "content_engine client
             \<lparr>l_topic = topic, l_duration = du, l_grade_level = g,
              l_learning_objectives = Some (case lo of None \<Rightarrow> [] | Some los \<Rightarrow> los)\<rparr> = Inl e'"
  then show "fst (generate_lesson_plan client topic du g lo) =
             JDict [(''success'', JBool False), (''error'', JStr (str_exn e')),
                    (''topic'', JStr topic)]"
    by (simp add: generate_lesson_plan_engine)
next
  assume "strip topic \<noteq> []"
    "1 \<le> m \<and> m \<le> 20 \<and>
           qna_engine client
             \<lparr>q_topic = topic, q_num = m, q_question_type = lit ''Short Answer'',
              q_difficulty_level = d,
              q_custom_instructions = Some (lit ''Create '' @ ct @ lit '' flashcards''),
              q_prompt_template = Some custom_template\<rparr> = Inl e''"
  then show "fst (generate_flashcards client topic m d ct) =
             JDict [(''success'', JBool False), (''error'', JStr (str_exn e'')),
                    (''topic'', JStr topic)]"
    by (simp add: generate_flashcards_engine)
qed

lemma strip_Math: "strip (lit ''Math'') \<noteq> []"
  by (simp add: strip_def lstrip_def rstrip_def py_isspace_def lit_def)

lemma strip_blank: "strip [32, 9] = []"
  by (simp add: strip_def lstrip_def rstrip_def py_isspace_def)

theorem tool_exceptions_become_failure_mapping_witness:
  "strip [32, 9] = [] \<and> strip (lit ''Math'') \<noteq> []
   \<and> fst (generate_mcq raising_client [32, 9] 5 (lit ''Medium'') []) =
       JDict [(''success'', JBool False), (''error'', JStr (lit ''Topic cannot be empty'')),
              (''topic'', JStr [32, 9])]
   \<and> fst (generate_lesson_plan raising_client [32, 9] (lit ''1 hour'') (lit ''College'') None) =
       JDict [(''success'', JBool False), (''error'', JStr (lit ''Topic cannot be empty'')),
              (''topic'', JStr [32, 9])]
   \<and> fst (generate_flashcards raising_client [32, 9] 10 (lit ''Medium'') (lit ''QA'')) =
       JDict [(''success'', JBool False), (''error'', JStr (lit ''Topic cannot be empty'')),
              (''topic'', JStr [32, 9])]
   \<and> fst (generate_mcq raising_client (lit ''Math'') 11 (lit ''Medium'') []) =
       JDict [(''success'', JBool False),
              (''error'', JStr (lit ''Number of questions must be between 1 and 10'')),
              (''topic'', JStr (lit ''Math''))]
   \<and> fst (generate_flashcards raising_client (lit ''Math'') 0 (lit ''Medium'') (lit ''QA'')) =
       JDict [(''success'', JBool False),
              (''error'', JStr (lit ''Number of cards must be between 1 and 20'')),
              (''topic'', JStr (lit ''Math''))]
   \<and> fst (generate_mcq raising_client (lit ''Math'') 5 (lit ''Medium'') []) =
       JDict [(''success'', JBool False), (''error'', JStr (lit ''quota exceeded'')),
              (''topic'', JStr (lit ''Math''))]
   \<and> fst (generate_lesson_plan raising_client (lit ''Math'') (lit ''1 hour'') (lit ''College'') None) =
       JDict [(''success'', JBool False), (''error'', JStr (lit ''quota exceeded'')),
              (''topic'', JStr (lit ''Math''))]
   \<and> fst (generate_flashcards raising_client (lit ''Math'') 10 (lit ''Medium'') (lit ''QA'')) =
       JDict [(''success'', JBool False), (''error'', JStr (lit ''quota exceeded'')),
              (''topic'', JStr (lit ''Math''))]"
  using
    tool_exceptions_become_failure_mapping
      [where topic = "[32, 9]" and client = raising_client and n = 5 and d = "lit ''Medium''"
         and ci = "[]" and du = "lit ''1 hour''" and g = "lit ''College''" and lo = None
         and m = 10 and ct = "lit ''QA''"]
    tool_exceptions_become_failure_mapping
      [where topic = "lit ''Math''" and client = raising_client and n = 11
         and d = "lit ''Medium''" and ci = "[]" and du = "lit ''1 hour''"
         and g = "lit ''College''" and lo = None and m = 0 and ct = "lit ''QA''"
         and e' = "EngineError (lit ''quota exceeded'')"]
    tool_exceptions_become_failure_mapping
      [where topic = "lit ''Math''" and client = raising_client and n = 5
         and d = "lit ''Medium''" and ci = "[]" and m = 10 and ct = "lit ''QA''"
         and e = "EngineError (lit ''quota exceeded'')"
         and e'' = "EngineError (lit ''quota exceeded'')"]
    strip_blank strip_Math
  by (simp add: raising_client_def)

text \<open>
  Claim C3. For \<open>num_questions\<close> outside \<open>[1, 10]\<close>, whatever the topic, \<open>generate_mcq\<close>
  returns a mapping with \<open>success: False\<close> and calls no engine. Inside the range, with
  a topic that is not blank, the check lets the call through: the engine is asked once
  for that many items, and its answer is returned as a success.
\<close>
theorem mcq_count_range_checked:
  "(n < 1 \<or> n > 10 \<longrightarrow>
      dict_get (fst (generate_mcq client topic n d ci)) ''success'' = Some (JBool False)
      \<and> snd (generate_mcq client topic n d ci) = [])
   \<and> (1 \<le> n \<and> n \<le> 10 \<and> strip topic \<noteq> [] \<longrightarrow>
        snd (generate_mcq client topic n d ci) =
          [GenerateQuestions
             \<lparr>q_topic = topic, q_num = n, q_question_type = lit ''Multiple Choice'',
              q_difficulty_level = d, q_custom_instructions = Some ci,
              q_prompt_template = None\<rparr>]
        \<and> (\<forall>qs. qna_engine client
                    \<lparr>q_topic = topic, q_num = n, q_question_type = lit ''Multiple Choice'',
                     q_difficulty_level = d, q_custom_instructions = Some ci,
                     q_prompt_template = None\<rparr> = Inr qs \<longrightarrow>
               dict_get (fst (generate_mcq client topic n d ci)) ''success''
                 = Some (JBool True)))"
proof (intro conjI impI allI)
  assume out: "n < 1 \<or> n > 10"
  show "dict_get (fst (generate_mcq client topic n d ci)) ''success'' = Some (JBool False)"
    using out by (cases "strip topic = []") (simp_all add: generate_mcq_blank generate_mcq_range)
  show "snd (generate_mcq client topic n d ci) = []"
    using out by (cases "strip topic = []") (simp_all add: generate_mcq_blank generate_mcq_range)
next
  assume "1 \<le> n \<and> n \<le> 10 \<and> strip topic \<noteq> []"
  then show "snd (generate_mcq client topic n d ci) =
          [GenerateQuestions
             \<lparr>q_topic = topic, q_num = n, q_question_type = lit ''Multiple Choice'',
              q_difficulty_level = d, q_custom_instructions = Some ci,
              q_prompt_template = None\<rparr>]"
    by (simp add: generate_mcq_engine)
next
  fix qs
  assume "1 \<le> n \<and> n \<le> 10 \<and> strip topic \<noteq> []"
    and "qna_engine client
                    \<lparr>q_topic = topic, q_num = n, q_question_type = lit ''Multiple Choice'',
                     q_difficulty_level = d, q_custom_instructions = Some ci,
                     q_prompt_template = None\<rparr> = Inr qs"
  then show "dict_get (fst (generate_mcq client topic n d ci)) ''success'' = Some (JBool True)"
    by (simp add: generate_mcq_engine)
qed

theorem mcq_count_range_checked_witness:
  "dict_get (fst (generate_mcq stub_client (lit ''Math'') 0 (lit ''Easy'') [])) ''success''
     = Some (JBool False)
   \<and> snd (generate_mcq stub_client (lit ''Math'') 0 (lit ''Easy'') []) = []
   \<and> dict_get (fst (generate_mcq stub_client (lit ''Math'') 11 (lit ''Easy'') [])) ''success''
     = Some (JBool False)
   \<and> snd (generate_mcq stub_client (lit ''Math'') 11 (lit ''Easy'') []) = []
   \<and> strip (lit ''Math'') \<noteq> []
   \<and> snd (generate_mcq stub_client (lit ''Math'') 1 (lit ''Easy'') []) =
       [GenerateQuestions
          \<lparr>q_topic = lit ''Math'', q_num = 1, q_question_type = lit ''Multiple Choice'',
           q_difficulty_level = lit ''Easy'', q_custom_instructions = Some [],
           q_prompt_template = None\<rparr>]
   \<and> dict_get (fst (generate_mcq stub_client (lit ''Math'') 1 (lit ''Easy'') [])) ''success''
     = Some (JBool True)
   \<and> dict_get (fst (generate_mcq stub_client (lit ''Math'') 10 (lit ''Easy'') [])) ''success''
     = Some (JBool True)"
  using
    mcq_count_range_checked [where n = 0 and client = stub_client and topic = "lit ''Math''"
      and d = "lit ''Easy''" and ci = "[]"]
    mcq_count_range_checked [where n = 11 and client = stub_client and topic = "lit ''Math''"
      and d = "lit ''Easy''" and ci = "[]"]
    mcq_count_range_checked [where n = 1 and client = stub_client and topic = "lit ''Math''"
      and d = "lit ''Easy''" and ci = "[]"]
    mcq_count_range_checked [where n = 10 and client = stub_client and topic = "lit ''Math''"
      and d = "lit ''Easy''" and ci = "[]"]
    strip_Math
  by (simp add: stub_client_def)

text \<open>
  Claim C4. For \<open>num_cards\<close> outside \<open>[1, 20]\<close>, whatever the topic,
  \<open>generate_flashcards\<close> returns a mapping with \<open>success: False\<close> and calls no engine.
  Inside the range, with a topic that is not blank, the engine is asked once for that
  many items, and its answer is returned as a success.
\<close>
theorem flashcards_count_range_checked:
  "(n < 1 \<or> n > 20 \<longrightarrow>
      dict_get (fst (generate_flashcards client topic n d ct)) ''success'' = Some (JBool False)
      \<and> snd (generate_flashcards client topic n d ct) = [])
   \<and> (1 \<le> n \<and> n \<le> 20 \<and> strip topic \<noteq> [] \<longrightarrow>
        snd (generate_flashcards client topic n d ct) =
          [GenerateQuestions
             \<lparr>q_topic = topic, q_num = n, q_question_type = lit ''Short Answer'',
              q_difficulty_level = d,
              q_custom_instructions = Some (lit ''Create '' @ ct @ lit '' flashcards''),
              q_prompt_template = Some custom_template\<rparr>]
        \<and> (\<forall>qs. qna_engine client
                    \<lparr>q_topic = topic, q_num = n, q_question_type = lit ''Short Answer'',
                     q_difficulty_level = d,
                     q_custom_instructions = Some (lit ''Create '' @ ct @ lit '' flashcards''),
                     q_prompt_template = Some custom_template\<rparr> = Inr qs \<longrightarrow>
               dict_get (fst (generate_flashcards client topic n d ct)) ''success''
                 = Some (JBool True)))"
proof (intro conjI impI allI)
  assume out: "n < 1 \<or> n > 20"
  show "dict_get (fst (generate_flashcards client topic n d ct)) ''success''
          = Some (JBool False)"
    using out
    by (cases "strip topic = []")
      (simp_all add: generate_flashcards_blank generate_flashcards_range)
  show "snd (generate_flashcards client topic n d ct) = []"
    using out
    by (cases "strip topic = []")
      (simp_all add: generate_flashcards_blank generate_flashcards_range)
next
  assume "1 \<le> n \<and> n \<le> 20 \<and> strip topic \<noteq> []"
  then show "snd (generate_flashcards client topic n d ct) =
          [GenerateQuestions
             \<lparr>q_topic = topic, q_num = n, q_question_type = lit ''Short Answer'',
              q_difficulty_level = d,
              q_custom_instructions = Some (lit ''Create '' @ ct @ lit '' flashcards''),
              q_prompt_template = Some custom_template\<rparr>]"
    by (simp add: generate_flashcards_engine)
next
  fix qs
  assume "1 \<le> n \<and> n \<le> 20 \<and> strip topic \<noteq> []"
    and "qna_engine client
                    \<lparr>q_topic = topic, q_num = n, q_question_type = lit ''Short Answer'',
                     q_difficulty_level = d,
                     q_custom_instructions = Some (lit ''Create '' @ ct @ lit '' flashcards''),
                     q_prompt_template = Some custom_template\<rparr> = Inr qs"
  then show "dict_get (fst (generate_flashcards client topic n d ct)) ''success''
               = Some (JBool True)"
    by (simp add: generate_flashcards_engine)
qed

theorem flashcards_count_range_checked_witness:
  "dict_get (fst (generate_flashcards stub_client (lit ''Math'') 0 (lit ''Easy'') (lit ''QA'')))
      ''success'' = Some (JBool False)
   \<and> snd (generate_flashcards stub_client (lit ''Math'') 0 (lit ''Easy'') (lit ''QA'')) = []
   \<and> dict_get (fst (generate_flashcards stub_client (lit ''Math'') 21 (lit ''Easy'') (lit ''QA'')))
      ''success'' = Some (JBool False)
   \<and> snd (generate_flashcards stub_client (lit ''Math'') 21 (lit ''Easy'') (lit ''QA'')) = []
   \<and> strip (lit ''Math'') \<noteq> []
   \<and> snd (generate_flashcards stub_client (lit ''Math'') 20 (lit ''Easy'') (lit ''QA'')) =
       [GenerateQuestions
          \<lparr>q_topic = lit ''Math'', q_num = 20, q_question_type = lit ''Short Answer'',
           q_difficulty_level = lit ''Easy'',
           q_custom_instructions = Some (lit ''Create '' @ lit ''QA'' @ lit '' flashcards''),
           q_prompt_template = Some custom_template\<rparr>]
   \<and> dict_get (fst (generate_flashcards stub_client (lit ''Math'') 20 (lit ''Easy'') (lit ''QA'')))
      ''success'' = Some (JBool True)
   \<and> dict_get (fst (generate_flashcards stub_client (lit ''Math'') 1 (lit ''Easy'') (lit ''QA'')))
      ''success'' = Some (JBool True)"
  using
    flashcards_count_range_checked [where n = 0 and client = stub_client
      and topic = "lit ''Math''" and d = "lit ''Easy''" and ct = "lit ''QA''"]
    flashcards_count_range_checked [where n = 21 and client = stub_client
      and topic = "lit ''Math''" and d = "lit ''Easy''" and ct = "lit ''QA''"]
    flashcards_count_range_checked [where n = 20 and client = stub_client
      and topic = "lit ''Math''" and d = "lit ''Easy''" and ct = "lit ''QA''"]
    flashcards_count_range_checked [where n = 1 and client = stub_client
      and topic = "lit ''Math''" and d = "lit ''Easy''" and ct = "lit ''QA''"]
    strip_Math
  by (simp add: stub_client_def)

text \<open>
  Claim C10. The topic is checked before the count: when the topic is blank and the
  count is out of range as well, the \<open>error\<close> entry of \<open>generate_mcq\<close> and of
  \<open>generate_flashcards\<close> is \<open>Topic cannot be empty\<close>, not the range message.
\<close>
theorem topic_check_precedes_count_check:
  assumes "\<forall>c\<in>set topic. py_isspace c"
  shows
    "(n < 1 \<or> n > 10 \<longrightarrow>
        dict_get (fst (generate_mcq client topic n d ci)) ''error''
          = Some (JStr (lit ''Topic cannot be empty''))
        \<and> dict_get (fst (generate_mcq client topic n d ci)) ''error''
          \<noteq> Some (JStr (lit ''Number of questions must be between 1 and 10'')))
     \<and> (m < 1 \<or> m > 20 \<longrightarrow>
        dict_get (fst (generate_flashcards client topic m d ct)) ''error''
          = Some (JStr (lit ''Topic cannot be empty''))
        \<and> dict_get (fst (generate_flashcards client topic m d ct)) ''error''
          \<noteq> Some (JStr (lit ''Number of cards must be between 1 and 20'')))"
proof -
  from assms have blank: "strip topic = []"
    by (simp add: strip_empty_iff)
  have differ: "lit ''Topic cannot be empty'' \<noteq> lit ''Number of questions must be between 1 and 10''"
    "lit ''Topic cannot be empty'' \<noteq> lit ''Number of cards must be between 1 and 20''"
    by (simp_all add: lit_def)
  show ?thesis
    using blank differ by (simp add: generate_mcq_blank generate_flashcards_blank)
qed

theorem topic_check_precedes_count_check_witness:
  "py_isspace 32
   \<and> dict_get (fst (generate_mcq stub_client [32, 32] 0 (lit ''Easy'') [])) ''error''
       = Some (JStr (lit ''Topic cannot be empty''))
   \<and> dict_get (fst (generate_flashcards stub_client [32, 32] 21 (lit ''Easy'') (lit ''QA'')))
       ''error'' = Some (JStr (lit ''Topic cannot be empty''))"
  using topic_check_precedes_count_check
    [where topic = "[32, 32]" and n = 0 and m = 21 and client = stub_client
       and d = "lit ''Easy''" and ci = "[]" and ct = "lit ''QA''"]
  by (simp add: py_isspace_def)

section \<open>Reshaping the engine's items\<close>

lemma mcq_entries_eq:
  "mcq_entries i xs acc =
     acc @ map (\<lambda>(k, q). JDict [(''question_number'', JInt (int k)),
                                 (''question'', JStr (question q)),
                                 (''options'', JList (map JStr (options q))),
                                 (''correct_answer'', JStr (correct_answer q)),
                                 (''explanation'', JStr (explanation q))])
             (List.enumerate i xs)"
  by (induction xs arbitrary: i acc) simp_all

lemma flashcard_entries_eq:
  "flashcard_entries topic d i xs acc =
     acc @ map (\<lambda>(k, q). JDict [(''card_number'', JInt (int k)),
                                 (''front'', JStr (question q)),
                                 (''back'', JStr (correct_answer q)),
                                 (''category'', JStr topic),
                                 (''difficulty'', JStr d)])
             (List.enumerate i xs)"
  by (induction xs arbitrary: i acc) simp_all

lemma flashcard_entries_cong:
  "map question xs = map question ys \<Longrightarrow> map correct_answer xs = map correct_answer ys \<Longrightarrow>
   flashcard_entries topic d i xs acc = flashcard_entries topic d i ys acc"
proof (induction xs arbitrary: ys i acc)
  case Nil
  then show ?case by simp
next
  case (Cons x xs)
  then obtain y ys' where ys: "ys = y # ys'"
    by (cases ys) auto
  with Cons.prems have "question x = question y" "correct_answer x = correct_answer y"
    "map question xs = map question ys'" "map correct_answer xs = map correct_answer ys'"
    by auto
  then show ?case
    using Cons.IH [of ys'] by (simp add: ys)
qed

text \<open>
  Claim C5. When the engine answers a valid \<open>generate_mcq\<close> call with \<open>N\<close> items, the
  result is a success mapping whose \<open>num_questions\<close> is \<open>N\<close>, the number returned and
  not the number asked for, and whose \<open>questions\<close> list has \<open>N\<close> entries in the
  engine's order: entry \<open>i\<close> (counted from 0) carries \<open>question_number = i + 1\<close> and the
  question, options, correct answer and explanation of item \<open>i\<close> unchanged.
\<close>
theorem mcq_entries_follow_engine_items:
  assumes "strip topic \<noteq> []" and "1 \<le> n" and "n \<le> 10"
    and "qna_engine client
           \<lparr>q_topic = topic, q_num = n, q_question_type = lit ''Multiple Choice'',
            q_difficulty_level = d, q_custom_instructions = Some ci,
            q_prompt_template = None\<rparr> = Inr qs"
  shows
    "\<exists>entries.
       fst (generate_mcq client topic n d ci) =
         JDict [(''success'', JBool True),
                (''topic'', JStr topic),
                (''num_questions'', JInt (int (length (questions qs)))),
                (''difficulty_level'', JStr d),
                (''questions'', JList entries)]
       \<and> length entries = length (questions qs)
       \<and> (\<forall>i<length (questions qs).
            entries ! i =
              JDict [(''question_number'', JInt (int i + 1)),
                     (''question'', JStr (question (questions qs ! i))),
                     (''options'', JList (map JStr (options (questions qs ! i)))),
                     (''correct_answer'', JStr (correct_answer (questions qs ! i))),
                     (''explanation'', JStr (explanation (questions qs ! i)))])"
proof (intro exI conjI allI impI)
  show "fst (generate_mcq client topic n d ci) =
         JDict [(''success'', JBool True),
                (''topic'', JStr topic),
                (''num_questions'', JInt (int (length (questions qs)))),
                (''difficulty_level'', JStr d),
                (''questions'', JList (mcq_entries 1 (questions qs) []))]"
    using assms by (simp add: generate_mcq_engine)
  show "length (mcq_entries 1 (questions qs) []) = length (questions qs)"
    by (simp add: mcq_entries_eq)
  fix i
  assume "i < length (questions qs)"
  then show "mcq_entries 1 (questions qs) [] ! i =
              JDict [(''question_number'', JInt (int i + 1)),
                     (''question'', JStr (question (questions qs ! i))),
                     (''options'', JList (map JStr (options (questions qs ! i)))),
                     (''correct_answer'', JStr (correct_answer (questions qs ! i))),
                     (''explanation'', JStr (explanation (questions qs ! i)))]"
    by (simp add: mcq_entries_eq nth_enumerate_eq)
qed

lemma strip_Photosynthesis: "strip (lit ''Photosynthesis'') \<noteq> []"
  by (simp add: strip_def lstrip_def rstrip_def py_isspace_def lit_def)

theorem mcq_entries_follow_engine_items_witness:
  "dict_get (fst (generate_mcq stub_client (lit ''Photosynthesis'') 2 (lit ''Easy'') []))
     ''num_questions'' = Some (JInt 2)
   \<and> dict_get (fst (generate_mcq stub_client (lit ''Photosynthesis'') 2 (lit ''Easy'') []))
     ''difficulty_level'' = Some (JStr (lit ''Easy''))
   \<and> dict_get (fst (generate_mcq stub_client (lit ''Photosynthesis'') 2 (lit ''Easy'') []))
     ''questions'' =
       Some (JList
         [JDict [(''question_number'', JInt 1),
                 (''question'', JStr (lit ''What do plants absorb?'')),
                 (''options'', JList [JStr (lit ''Light''), JStr (lit ''Sound'')]),
                 (''correct_answer'', JStr (lit ''Light'')),
                 (''explanation'', JStr (lit ''Chlorophyll absorbs light.''))],
          JDict [(''question_number'', JInt 2),
                 (''question'', JStr (lit ''Which gas is released?'')),
                 (''options'',
                    JList [JStr (lit ''Oxygen''), JStr (lit ''Helium''), JStr (lit ''Neon'')]),
                 (''correct_answer'', JStr (lit ''Oxygen'')),
                 (''explanation'', JStr (lit ''Water is split.''))]])"
proof -
  have "qna_engine stub_client
           \<lparr>q_topic = lit ''Photosynthesis'', q_num = 2,
            q_question_type = lit ''Multiple Choice'',
            q_difficulty_level = lit ''Easy'', q_custom_instructions = Some [],
            q_prompt_template = None\<rparr> = Inr \<lparr>questions = stub_items\<rparr>"
    by (simp add: stub_client_def)
  from mcq_entries_follow_engine_items [OF strip_Photosynthesis _ _ this]
  obtain entries where
    res: "fst (generate_mcq stub_client (lit ''Photosynthesis'') 2 (lit ''Easy'') []) =
         JDict [(''success'', JBool True),
                (''topic'', JStr (lit ''Photosynthesis'')),
                (''num_questions'', JInt (int (length stub_items))),
                (''difficulty_level'', JStr (lit ''Easy'')),
                (''questions'', JList entries)]"
    and len: "length entries = length stub_items"
    and nth: "\<forall>i<length stub_items.
            entries ! i =
              JDict [(''question_number'', JInt (int i + 1)),
                     (''question'', JStr (question (stub_items ! i))),
                     (''options'', JList (map JStr (options (stub_items ! i)))),
                     (''correct_answer'', JStr (correct_answer (stub_items ! i))),
                     (''explanation'', JStr (explanation (stub_items ! i)))]"
    by auto
  have two: "length stub_items = 2"
    by (simp add: stub_items_def)
  from nth two have e0: "entries ! 0 =
              JDict [(''question_number'', JInt 1),
                     (''question'', JStr (question (stub_items ! 0))),
                     (''options'', JList (map JStr (options (stub_items ! 0)))),
                     (''correct_answer'', JStr (correct_answer (stub_items ! 0))),
                     (''explanation'', JStr (explanation (stub_items ! 0)))]"
    by simp
  from nth two have e1: "entries ! 1 =
              JDict [(''question_number'', JInt 2),
                     (''question'', JStr (question (stub_items ! 1))),
                     (''options'', JList (map JStr (options (stub_items ! 1)))),
                     (''correct_answer'', JStr (correct_answer (stub_items ! 1))),
                     (''explanation'', JStr (explanation (stub_items ! 1)))]"
    by simp
  from len two have "entries = [entries ! 0, entries ! 1]"
    by (cases entries; cases "tl entries"; cases "tl (tl entries)") auto
  then have "entries =
         [JDict [(''question_number'', JInt 1),
                 (''question'', JStr (lit ''What do plants absorb?'')),
                 (''options'', JList [JStr (lit ''Light''), JStr (lit ''Sound'')]),
                 (''correct_answer'', JStr (lit ''Light'')),
                 (''explanation'', JStr (lit ''Chlorophyll absorbs light.''))],
          JDict [(''question_number'', JInt 2),
                 (''question'', JStr (lit ''Which gas is released?'')),
                 (''options'',
                    JList [JStr (lit ''Oxygen''), JStr (lit ''Helium''), JStr (lit ''Neon'')]),
                 (''correct_answer'', JStr (lit ''Oxygen'')),
                 (''explanation'', JStr (lit ''Water is split.''))]]"
    using e0 e1 by (simp add: stub_items_def)
  with res two show ?thesis
    by simp
qed

text \<open>
  Claim C8. When the engine answers a valid \<open>generate_flashcards\<close> call with \<open>N\<close>
  items, the \<open>flashcards\<close> list has \<open>N\<close> entries; entry \<open>i\<close> (counted from 0) is
  exactly \<open>card_number = i + 1\<close>, \<open>front\<close> the item's question, \<open>back\<close> its correct
  answer, \<open>category\<close> the topic and \<open>difficulty\<close> the difficulty level. Options and
  explanations play no part: any response with the same questions and correct answers
  gives the same result.
\<close>
theorem flashcards_keep_question_and_answer_only:
  assumes "strip topic \<noteq> []" and "1 \<le> n" and "n \<le> 20"
    and "qna_engine client
           \<lparr>q_topic = topic, q_num = n, q_question_type = lit ''Short Answer'',
            q_difficulty_level = d,
            q_custom_instructions = Some (lit ''Create '' @ ct @ lit '' flashcards''),
            q_prompt_template = Some custom_template\<rparr> = Inr qs"
  shows
    "(\<exists>cards.
        fst (generate_flashcards client topic n d ct) =
          JDict [(''success'', JBool True),
                 (''topic'', JStr topic),
                 (''num_cards'', JInt (int (length (questions qs)))),
                 (''difficulty_level'', JStr d),
                 (''card_type'', JStr ct),
                 (''flashcards'', JList cards)]
        \<and> length cards = length (questions qs)
        \<and> (\<forall>i<length (questions qs).
             cards ! i =
               JDict [(''card_number'', JInt (int i + 1)),
                      (''front'', JStr (question (questions qs ! i))),
                      (''back'', JStr (correct_answer (questions qs ! i))),
                      (''category'', JStr topic),
                      (''difficulty'', JStr d)]))
     \<and> (\<forall>(client' :: educhain_client) qs'.
          qna_engine client'
            \<lparr>q_topic = topic, q_num = n, q_question_type = lit ''Short Answer'',
             q_difficulty_level = d,
             q_custom_instructions = Some (lit ''Create '' @ ct @ lit '' flashcards''),
             q_prompt_template = Some custom_template\<rparr> = Inr qs'
          \<and> map question (questions qs') = map question (questions qs)
          \<and> map correct_answer (questions qs') = map correct_answer (questions qs) \<longrightarrow>
          fst (generate_flashcards client' topic n d ct)
            = fst (generate_flashcards client topic n d ct))"
proof (intro conjI allI impI)
  have res: "fst (generate_flashcards client topic n d ct) =
          JDict [(''success'', JBool True),
                 (''topic'', JStr topic),
                 (''num_cards'', JInt (int (length (questions qs)))),
                 (''difficulty_level'', JStr d),
                 (''card_type'', JStr ct),
                 (''flashcards'', JList (flashcard_entries topic d 1 (questions qs) []))]"
    using assms by (simp add: generate_flashcards_engine)
  have len: "length (flashcard_entries topic d 1 (questions qs) []) = length (questions qs)"
    by (simp add: flashcard_entries_eq)
  have nth: "\<forall>i<length (questions qs).
             flashcard_entries topic d 1 (questions qs) [] ! i =
               JDict [(''card_number'', JInt (int i + 1)),
                      (''front'', JStr (question (questions qs ! i))),
                      (''back'', JStr (correct_answer (questions qs ! i))),
                      (''category'', JStr topic),
                      (''difficulty'', JStr d)]"
    by (simp add: flashcard_entries_eq nth_enumerate_eq)
  from res len nth show "\<exists>cards.
        fst (generate_flashcards client topic n d ct) =
          JDict [(''success'', JBool True),
                 (''topic'', JStr topic),
                 (''num_cards'', JInt (int (length (questions qs)))),
                 (''difficulty_level'', JStr d),
                 (''card_type'', JStr ct),
                 (''flashcards'', JList cards)]
        \<and> length cards = length (questions qs)
        \<and> (\<forall>i<length (questions qs).
             cards ! i =
               JDict [(''card_number'', JInt (int i + 1)),
                      (''front'', JStr (question (questions qs ! i))),
                      (''back'', JStr (correct_answer (questions qs ! i))),
                      (''category'', JStr topic),
                      (''difficulty'', JStr d)])"
    by blast
next
  fix client' :: educhain_client and qs'
  assume other: "qna_engine client'
            \<lparr>q_topic = topic, q_num = n, q_question_type = lit ''Short Answer'',
             q_difficulty_level = d,
             q_custom_instructions = Some (lit ''Create '' @ ct @ lit '' flashcards''),
             q_prompt_template = Some custom_template\<rparr> = Inr qs'
          \<and> map question (questions qs') = map question (questions qs)
          \<and> map correct_answer (questions qs') = map correct_answer (questions qs)"
  then have same: "flashcard_entries topic d 1 (questions qs') []
      = flashcard_entries topic d 1 (questions qs) []"
    by (intro flashcard_entries_cong) simp_all
  from other have "length (questions qs') = length (questions qs)"
    using map_eq_imp_length_eq by blast
  with other same assms show "fst (generate_flashcards client' topic n d ct)
            = fst (generate_flashcards client topic n d ct)"
    by (simp add: generate_flashcards_engine)
qed

theorem flashcards_keep_question_and_answer_only_witness:
  "dict_get (fst (generate_flashcards stub_client (lit ''Math'') 2 (lit ''Hard'') (lit ''QA'')))
     ''flashcards'' =
       Some (JList
         [JDict [(''card_number'', JInt 1),
                 (''front'', JStr (lit ''What do plants absorb?'')),
                 (''back'', JStr (lit ''Light'')),
                 (''category'', JStr (lit ''Math'')),
                 (''difficulty'', JStr (lit ''Hard''))],
          JDict [(''card_number'', JInt 2),
                 (''front'', JStr (lit ''Which gas is released?'')),
                 (''back'', JStr (lit ''Oxygen'')),
                 (''category'', JStr (lit ''Math'')),
                 (''difficulty'', JStr (lit ''Hard''))]])
   \<and> fst (generate_flashcards other_client (lit ''Math'') 2 (lit ''Hard'') (lit ''QA''))
     = fst (generate_flashcards stub_client (lit ''Math'') 2 (lit ''Hard'') (lit ''QA''))"
proof -
  let ?rq = "\<lparr>q_topic = lit ''Math'', q_num = 2, q_question_type = lit ''Short Answer'',
            q_difficulty_level = lit ''Hard'',
            q_custom_instructions = Some (lit ''Create '' @ lit ''QA'' @ lit '' flashcards''),
            q_prompt_template = Some custom_template\<rparr>"
  have stub: "qna_engine stub_client ?rq = Inr \<lparr>questions = stub_items\<rparr>"
    by (simp add: stub_client_def)
  note inst = flashcards_keep_question_and_answer_only [OF strip_Math _ _ stub]
  have two: "length stub_items = 2"
    by (simp add: stub_items_def)
  from inst obtain cards where
    res: "fst (generate_flashcards stub_client (lit ''Math'') 2 (lit ''Hard'') (lit ''QA'')) =
          JDict [(''success'', JBool True),
                 (''topic'', JStr (lit ''Math'')),
                 (''num_cards'', JInt (int (length stub_items))),
                 (''difficulty_level'', JStr (lit ''Hard'')),
                 (''card_type'', JStr (lit ''QA'')),
                 (''flashcards'', JList cards)]"
    and len: "length cards = length stub_items"
    and nth: "\<forall>i<length stub_items.
             cards ! i =
               JDict [(''card_number'', JInt (int i + 1)),
                      (''front'', JStr (question (stub_items ! i))),
                      (''back'', JStr (correct_answer (stub_items ! i))),
                      (''category'', JStr (lit ''Math'')),
                      (''difficulty'', JStr (lit ''Hard''))]"
    by auto
  from nth two have c0: "cards ! 0 =
               JDict [(''card_number'', JInt 1),
                      (''front'', JStr (question (stub_items ! 0))),
                      (''back'', JStr (correct_answer (stub_items ! 0))),
                      (''category'', JStr (lit ''Math'')),
                      (''difficulty'', JStr (lit ''Hard''))]"
    by simp
  from nth two have c1: "cards ! 1 =
               JDict [(''card_number'', JInt 2),
                      (''front'', JStr (question (stub_items ! 1))),
                      (''back'', JStr (correct_answer (stub_items ! 1))),
                      (''category'', JStr (lit ''Math'')),
                      (''difficulty'', JStr (lit ''Hard''))]"
    by simp
  from len two have "cards = [cards ! 0, cards ! 1]"
    by (cases cards; cases "tl cards"; cases "tl (tl cards)") auto
  with c0 c1 have cards: "cards =
         [JDict [(''card_number'', JInt 1),
                 (''front'', JStr (lit ''What do plants absorb?'')),
                 (''back'', JStr (lit ''Light'')),
                 (''category'', JStr (lit ''Math'')),
                 (''difficulty'', JStr (lit ''Hard''))],
          JDict [(''card_number'', JInt 2),
                 (''front'', JStr (lit ''Which gas is released?'')),
                 (''back'', JStr (lit ''Oxygen'')),
                 (''category'', JStr (lit ''Math'')),
                 (''difficulty'', JStr (lit ''Hard''))]]"
    by (simp add: stub_items_def)
  have other: "qna_engine other_client ?rq =
      Inr \<lparr>questions = map (\<lambda>q. q\<lparr>options := [], explanation := lit ''n/a''\<rparr>) stub_items\<rparr>"
    by (simp add: other_client_def)
  from inst have "\<forall>(client' :: educhain_client) qs'.
          qna_engine client' ?rq = Inr qs'
          \<and> map question (questions qs') = map question stub_items
          \<and> map correct_answer (questions qs') = map correct_answer stub_items \<longrightarrow>
          fst (generate_flashcards client' (lit ''Math'') 2 (lit ''Hard'') (lit ''QA''))
            = fst (generate_flashcards stub_client (lit ''Math'') 2 (lit ''Hard'') (lit ''QA''))"
    by simp
  with other have
    "fst (generate_flashcards other_client (lit ''Math'') 2 (lit ''Hard'') (lit ''QA''))
     = fst (generate_flashcards stub_client (lit ''Math'') 2 (lit ''Hard'') (lit ''QA''))"
    by (simp add: comp_def)
  with res cards show ?thesis
    by simp
qed

section \<open>Rendering the resources\<close>

lemma join_Cons: "ys \<noteq> [] \<Longrightarrow> join s (x # ys) = x @ s @ join s ys"
  by (cases ys) simp_all

lemma join_append:
  "xs \<noteq> [] \<Longrightarrow> ys \<noteq> [] \<Longrightarrow> join s (xs @ ys) = join s xs @ s @ join s ys"
proof (induction xs)
  case Nil
  then show ?case by simp
next
  case (Cons x xs)
  then show ?case
    by (cases "xs = []") (simp_all add: join_Cons)
qed

lemma join_prepend: "join s ((a @ x) # xs) = a @ join s (x # xs)"
  by (cases xs) simp_all

text \<open>The lines a bullet list contributes: the template's indentation precedes the first.\<close>

lemma bullet_block:
  "join nl (case xs of [] \<Rightarrow> [indent]
            | x # ys \<Rightarrow> (indent @ bullet @ lit '' '' @ x) # map (\<lambda>y. bullet @ lit '' '' @ y) ys)
   = indent @ join nl (map (\<lambda>y. bullet @ lit '' '' @ y) xs)"
  by (cases xs) (simp_all add: join_prepend [symmetric])

lemma bullet_block_nonempty:
  "(case xs of [] \<Rightarrow> [indent]
    | x # ys \<Rightarrow> (indent @ bullet @ lit '' '' @ x) # map (\<lambda>y. bullet @ lit '' '' @ y) ys) \<noteq> []"
  by (cases xs) simp_all

text \<open>
  Claim C6. \<open>get_topic_overview\<close> makes one lesson-plan request, with duration
  \<open>Overview\<close> and grade level \<open>General\<close>. When the engine answers, the text is the
  newline-join of the lines below: introduction and assessment are embedded unchanged,
  and every objective and every material is an element of its own, in the engine's
  order, prefixed with the bullet and a space. The template's indentation stands before
  the first bullet of each list only, and is all there is on that line when the list is
  empty.
\<close>
theorem topic_overview_rendering:
  "snd (get_topic_overview client topic) =
     [GenerateLessonPlan
        \<lparr>l_topic = topic, l_duration = lit ''Overview'', l_grade_level = lit ''General'',
         l_learning_objectives = None\<rparr>]
   \<and> (\<forall>p. content_engine client
              \<lparr>l_topic = topic, l_duration = lit ''Overview'', l_grade_level = lit ''General'',
               l_learning_objectives = None\<rparr> = Inr p \<longrightarrow>
          fst (get_topic_overview client topic) =
            join nl
              ([[],
                indent @ lit ''Topic Overview: '' @ topic,
                indent,
                indent @ lit ''Description: '' @ introduction p,
                indent,
                indent @ lit ''Key Concepts:'']
               @ (case objectives p of
                    [] \<Rightarrow> [indent]
                  | x # xs \<Rightarrow>
                      (indent @ bullet @ lit '' '' @ x) # map (\<lambda>y. bullet @ lit '' '' @ y) xs)
               @ [indent,
                  indent @ lit ''Materials Needed:'']
               @ (case materials p of
                    [] \<Rightarrow> [indent]
                  | x # xs \<Rightarrow>
                      (indent @ bullet @ lit '' '' @ x) # map (\<lambda>y. bullet @ lit '' '' @ y) xs)
               @ [indent,
                  indent @ lit ''Assessment Methods:'',
                  indent @ assessment p,
                  indent]))"
proof (intro conjI allI impI)
  show "snd (get_topic_overview client topic) =
     [GenerateLessonPlan
        \<lparr>l_topic = topic, l_duration = lit ''Overview'', l_grade_level = lit ''General'',
         l_learning_objectives = None\<rparr>]"
    by (rule get_topic_overview_calls)
next
  fix p
  assume answer: "content_engine client
              \<lparr>l_topic = topic, l_duration = lit ''Overview'', l_grade_level = lit ''General'',
               l_learning_objectives = None\<rparr> = Inr p"
  define objs where "objs = (case objectives p of
                    [] \<Rightarrow> [indent]
                  | x # xs \<Rightarrow>
                      (indent @ bullet @ lit '' '' @ x) # map (\<lambda>y. bullet @ lit '' '' @ y) xs)"
  define mats where "mats = (case materials p of
                    [] \<Rightarrow> [indent]
                  | x # xs \<Rightarrow>
                      (indent @ bullet @ lit '' '' @ x) # map (\<lambda>y. bullet @ lit '' '' @ y) xs)"
  have ne: "objs \<noteq> []" "mats \<noteq> []"
    by (simp_all add: objs_def mats_def bullet_block_nonempty)
  have jo: "join nl objs = indent @ join nl (map (\<lambda>y. bullet @ lit '' '' @ y) (objectives p))"
    and jm: "join nl mats = indent @ join nl (map (\<lambda>y. bullet @ lit '' '' @ y) (materials p))"
    by (simp_all add: objs_def mats_def bullet_block)
  have rendered: "fst (get_topic_overview client topic) =
      concat
             [nl, indent, lit ''Topic Overview: '', topic,
              nl, indent,
              nl, indent, lit ''Description: '', introduction p,
              nl, indent,
              nl, indent, lit ''Key Concepts:'',
              nl, join nl objs,
              nl, indent,
              nl, indent, lit ''Materials Needed:'',
              nl, join nl mats,
              nl, indent,
              nl, indent, lit ''Assessment Methods:'',
              nl, indent, assessment p,
              nl, indent]"
    using answer
    by (simp add: get_topic_overview_def engine_generate_lesson_plan_def jo jm)
  have "join nl
          ([[],
            indent @ lit ''Topic Overview: '' @ topic,
            indent,
            indent @ lit ''Description: '' @ introduction p,
            indent,
            indent @ lit ''Key Concepts:'']
           @ objs
           @ [indent, indent @ lit ''Materials Needed:'']
           @ mats
           @ [indent, indent @ lit ''Assessment Methods:'', indent @ assessment p, indent])
        = concat
             [nl, indent, lit ''Topic Overview: '', topic,
              nl, indent,
              nl, indent, lit ''Description: '', introduction p,
              nl, indent,
              nl, indent, lit ''Key Concepts:'',
              nl, join nl objs,
              nl, indent,
              nl, indent, lit ''Materials Needed:'',
              nl, join nl mats,
              nl, indent,
              nl, indent, lit ''Assessment Methods:'',
              nl, indent, assessment p,
              nl, indent]"
    using ne by (simp add: join_Cons join_append)
  with rendered show "fst (get_topic_overview client topic) =
            join nl
              ([[],
                indent @ lit ''Topic Overview: '' @ topic,
                indent,
                indent @ lit ''Description: '' @ introduction p,
                indent,
                indent @ lit ''Key Concepts:'']
               @ (case objectives p of
                    [] \<Rightarrow> [indent]
                  | x # xs \<Rightarrow>
                      (indent @ bullet @ lit '' '' @ x) # map (\<lambda>y. bullet @ lit '' '' @ y) xs)
               @ [indent,
                  indent @ lit ''Materials Needed:'']
               @ (case materials p of
                    [] \<Rightarrow> [indent]
                  | x # xs \<Rightarrow>
                      (indent @ bullet @ lit '' '' @ x) # map (\<lambda>y. bullet @ lit '' '' @ y) xs)
               @ [indent,
                  indent @ lit ''Assessment Methods:'',
                  indent @ assessment p,
                  indent])"
    by (simp only: objs_def mats_def)
qed

theorem topic_overview_rendering_witness:
  "fst (get_topic_overview stub_client (lit ''Photosynthesis'')) =
     join nl
       [[],
        indent @ lit ''Topic Overview: Photosynthesis'',
        indent,
        indent @ lit ''Description: Plants make sugar.'',
        indent,
        indent @ lit ''Key Concepts:'',
        indent @ bullet @ lit '' Define it'',
        bullet @ lit '' Explain it'',
        indent,
        indent @ lit ''Materials Needed:'',
        indent @ bullet @ lit '' Leaf'',
        bullet @ lit '' Lamp'',
        bullet @ lit '' Water'',
        indent,
        indent @ lit ''Assessment Methods:'',
        indent @ lit ''Quiz'',
        indent]"
proof -
  from topic_overview_rendering [of stub_client "lit ''Photosynthesis''"]
  have "fst (get_topic_overview stub_client (lit ''Photosynthesis'')) =
            join nl
              ([[],
                indent @ lit ''Topic Overview: '' @ lit ''Photosynthesis'',
                indent,
                indent @ lit ''Description: '' @ introduction stub_lesson,
                indent,
                indent @ lit ''Key Concepts:'']
               @ (case objectives stub_lesson of
                    [] \<Rightarrow> [indent]
                  | x # xs \<Rightarrow>
                      (indent @ bullet @ lit '' '' @ x) # map (\<lambda>y. bullet @ lit '' '' @ y) xs)
               @ [indent,
                  indent @ lit ''Materials Needed:'']
               @ (case materials stub_lesson of
                    [] \<Rightarrow> [indent]
                  | x # xs \<Rightarrow>
                      (indent @ bullet @ lit '' '' @ x) # map (\<lambda>y. bullet @ lit '' '' @ y) xs)
               @ [indent,
                  indent @ lit ''Assessment Methods:'',
                  indent @ assessment stub_lesson,
                  indent])"
    by (simp add: stub_client_def)
  then show ?thesis
    by (simp add: stub_lesson_def lit_def)
qed

lemma render_options_eq:
  "render_options j opts result =
     result @ concat (map (\<lambda>(k, opt). lit ''  '' @ str_nat k @ lit ''. '' @ opt @ nl)
                       (List.enumerate j opts))"
  by (induction opts arbitrary: j result) simp_all

lemma render_questions_eq:
  "render_questions i qs result =
     result @ concat (map (\<lambda>(k, q).
                 lit ''Question '' @ str_nat k @ lit '': '' @ question q @ nl
                 @ concat (map (\<lambda>(j, opt). lit ''  '' @ str_nat j @ lit ''. '' @ opt @ nl)
                             (List.enumerate 1 (options q)))
                 @ lit ''Correct Answer: '' @ correct_answer q @ nl
                 @ lit ''Explanation: '' @ explanation q @ nl @ nl)
               (List.enumerate i qs))"
  by (induction qs arbitrary: i result) (simp_all add: render_options_eq)

lemma concat_map_lines:
  "concat (map (\<lambda>l. l @ s) (concat (map f xs))) = concat (map (\<lambda>x. concat (map (\<lambda>l. l @ s) (f x))) xs)"
  by (induction xs) simp_all

text \<open>
  Claim C7. \<open>get_sample_questions\<close> makes one request, for 3 items of type
  \<open>Multiple Choice\<close> at difficulty \<open>Medium\<close>. When the engine raises, the text is
  \<open>Error retrieving sample questions for {topic}: \<close> followed by the message. When it
  answers, the text is a sequence of newline-terminated lines: the heading and a blank
  line, then for each item, numbered from 1, the question line, one line per option
  numbered from 1 in order, the correct-answer line, the explanation line and a blank
  line.
\<close>
theorem sample_questions_rendering:
  "snd (get_sample_questions client topic) =
     [GenerateQuestions
        \<lparr>q_topic = topic, q_num = 3, q_question_type = lit ''Multiple Choice'',
         q_difficulty_level = lit ''Medium'', q_custom_instructions = None,
         q_prompt_template = None\<rparr>]
   \<and> (\<forall>e. qna_engine client
              \<lparr>q_topic = topic, q_num = 3, q_question_type = lit ''Multiple Choice'',
               q_difficulty_level = lit ''Medium'', q_custom_instructions = None,
               q_prompt_template = None\<rparr> = Inl e \<longrightarrow>
          fst (get_sample_questions client topic) =
            lit ''Error retrieving sample questions for '' @ topic @ lit '': '' @ str_exn e)
   \<and> (\<forall>qs. qna_engine client
              \<lparr>q_topic = topic, q_num = 3, q_question_type = lit ''Multiple Choice'',
               q_difficulty_level = lit ''Medium'', q_custom_instructions = None,
               q_prompt_template = None\<rparr> = Inr qs \<longrightarrow>
          fst (get_sample_questions client topic) =
            concat (map (\<lambda>l. l @ nl)
              ([lit ''Sample Questions for: '' @ topic, []]
               @ concat (map (\<lambda>(i, q).
                   [lit ''Question '' @ str_nat i @ lit '': '' @ question q]
                   @ map (\<lambda>(j, opt). lit ''  '' @ str_nat j @ lit ''. '' @ opt)
                       (List.enumerate 1 (options q))
                   @ [lit ''Correct Answer: '' @ correct_answer q,
                      lit ''Explanation: '' @ explanation q,
                      []])
                 (List.enumerate 1 (questions qs))))))"
proof (intro conjI allI impI)
  show "snd (get_sample_questions client topic) =
     [GenerateQuestions
        \<lparr>q_topic = topic, q_num = 3, q_question_type = lit ''Multiple Choice'',
         q_difficulty_level = lit ''Medium'', q_custom_instructions = None,
         q_prompt_template = None\<rparr>]"
    by (rule get_sample_questions_calls)
next
  fix e
  assume "qna_engine client
              \<lparr>q_topic = topic, q_num = 3, q_question_type = lit ''Multiple Choice'',
               q_difficulty_level = lit ''Medium'', q_custom_instructions = None,
               q_prompt_template = None\<rparr> = Inl e"
  then show "fst (get_sample_questions client topic) =
            lit ''Error retrieving sample questions for '' @ topic @ lit '': '' @ str_exn e"
    by (rule get_sample_questions_raises)
next
  fix qs
  assume "qna_engine client
              \<lparr>q_topic = topic, q_num = 3, q_question_type = lit ''Multiple Choice'',
               q_difficulty_level = lit ''Medium'', q_custom_instructions = None,
               q_prompt_template = None\<rparr> = Inr qs"
  then have "fst (get_sample_questions client topic) =
      render_questions 1 (questions qs) (lit ''Sample Questions for: '' @ topic @ nl @ nl)"
    by (simp add: get_sample_questions_def generate_questions_def)
  then show "fst (get_sample_questions client topic) =
            concat (map (\<lambda>l. l @ nl)
              ([lit ''Sample Questions for: '' @ topic, []]
               @ concat (map (\<lambda>(i, q).
                   [lit ''Question '' @ str_nat i @ lit '': '' @ question q]
                   @ map (\<lambda>(j, opt). lit ''  '' @ str_nat j @ lit ''. '' @ opt)
                       (List.enumerate 1 (options q))
                   @ [lit ''Correct Answer: '' @ correct_answer q,
                      lit ''Explanation: '' @ explanation q,
                      []])
                 (List.enumerate 1 (questions qs)))))"
    by (simp add: render_questions_eq concat_map_lines split_def comp_def)
qed

theorem sample_questions_rendering_witness:
  "snd (get_sample_questions stub_client (lit ''Math'')) =
     [GenerateQuestions
        \<lparr>q_topic = lit ''Math'', q_num = 3, q_question_type = lit ''Multiple Choice'',
         q_difficulty_level = lit ''Medium'', q_custom_instructions = None,
         q_prompt_template = None\<rparr>]
   \<and> fst (get_sample_questions raising_client (lit ''Math'')) =
       lit ''Error retrieving sample questions for Math: quota exceeded''
   \<and> fst (get_sample_questions stub_client (lit ''Math'')) =
       concat (map (\<lambda>l. l @ nl)
         [lit ''Sample Questions for: Math'',
          [],
          lit ''Question 1: What do plants absorb?'',
          lit ''  1. Light'',
          lit ''  2. Sound'',
          lit ''Correct Answer: Light'',
          lit ''Explanation: Chlorophyll absorbs light.'',
          [],
          lit ''Question 2: Which gas is released?'',
          lit ''  1. Oxygen'',
          lit ''  2. Helium'',
          lit ''  3. Neon'',
          lit ''Correct Answer: Oxygen'',
          lit ''Explanation: Water is split.'',
          []])"
proof -
  have digits: "str_nat (Suc 0) = [49]" "str_nat (Suc (Suc 0)) = [50]"
    "str_nat (Suc (Suc (Suc 0))) = [51]"
    by (simp_all add: str_nat.simps)
  from sample_questions_rendering [of raising_client "lit ''Math''"]
  have raising: "fst (get_sample_questions raising_client (lit ''Math'')) =
            lit ''Error retrieving sample questions for '' @ lit ''Math'' @ lit '': ''
              @ lit ''quota exceeded''"
    by (simp add: raising_client_def)
  from sample_questions_rendering [of stub_client "lit ''Math''"]
  have calls: "snd (get_sample_questions stub_client (lit ''Math'')) =
     [GenerateQuestions
        \<lparr>q_topic = lit ''Math'', q_num = 3, q_question_type = lit ''Multiple Choice'',
         q_difficulty_level = lit ''Medium'', q_custom_instructions = None,
         q_prompt_template = None\<rparr>]"
    and answered: "fst (get_sample_questions stub_client (lit ''Math'')) =
            concat (map (\<lambda>l. l @ nl)
              ([lit ''Sample Questions for: '' @ lit ''Math'', []]
               @ concat (map (\<lambda>(i, q).
                   [lit ''Question '' @ str_nat i @ lit '': '' @ question q]
                   @ map (\<lambda>(j, opt). lit ''  '' @ str_nat j @ lit ''. '' @ opt)
                       (List.enumerate 1 (options q))
                   @ [lit ''Correct Answer: '' @ correct_answer q,
                      lit ''Explanation: '' @ explanation q,
                      []])
                 (List.enumerate 1 stub_items))))"
    by (simp_all add: stub_client_def)
  have "fst (get_sample_questions stub_client (lit ''Math'')) =
       concat (map (\<lambda>l. l @ nl)
         [lit ''Sample Questions for: Math'',
          [],
          lit ''Question 1: What do plants absorb?'',
          lit ''  1. Light'',
          lit ''  2. Sound'',
          lit ''Correct Answer: Light'',
          lit ''Explanation: Chlorophyll absorbs light.'',
          [],
          lit ''Question 2: Which gas is released?'',
          lit ''  1. Oxygen'',
          lit ''  2. Helium'',
          lit ''  3. Neon'',
          lit ''Correct Answer: Oxygen'',
          lit ''Explanation: Water is split.'',
          []])"
    unfolding answered
    by (simp add: stub_items_def digits lit_def)
  moreover have "fst (get_sample_questions raising_client (lit ''Math'')) =
       lit ''Error retrieving sample questions for Math: quota exceeded''"
    unfolding raising by (simp add: lit_def)
  ultimately show ?thesis
    using calls by simp
qed

section \<open>Start-up without the credential\<close>

text \<open>
  Claim C9. When \<open>GOOGLE_API_KEY\<close> is absent from the environment (or set to the empty
  string), constructing the server raises the \<open>ValueError\<close> that names the variable,
  whatever the libraries would do, and the process exits with status 1: no FastMCP
  object exists yet, so nothing is registered or served. With a non-empty key the check
  is passed: the model constructor receives the key, an exception it raises is the one
  that ends start-up, and when the four constructors return, the server is built and
  then serves the three tools and the two resources.
\<close>
theorem missing_api_key_stops_startup:
  "(env ''GOOGLE_API_KEY'' = None \<or> env ''GOOGLE_API_KEY'' = Some [] \<longrightarrow>
      EduChainMCPServer libs env =
        Inl (ValueError (lit ''GOOGLE_API_KEY environment variable not set''))
      \<and> main libs env = Exit 1)
   \<and> (\<forall>k e. env ''GOOGLE_API_KEY'' = Some k \<and> k \<noteq> []
          \<and> ChatGoogleGenerativeAI libs
               \<lparr>model = lit ''gemini-2.0-flash-exp'', google_api_key = k,
                temperature = 7 / 10, max_tokens = 2048\<rparr> = Inl e \<longrightarrow>
          EduChainMCPServer libs env = Inl e)
   \<and> (\<forall>k gm cfg client mcp.
          env ''GOOGLE_API_KEY'' = Some k \<and> k \<noteq> []
          \<and> ChatGoogleGenerativeAI libs
               \<lparr>model = lit ''gemini-2.0-flash-exp'', google_api_key = k,
                temperature = 7 / 10, max_tokens = 2048\<rparr> = Inr gm
          \<and> LLMConfig libs gm = Inr cfg
          \<and> Educhain libs cfg = Inr client
          \<and> FastMCP libs (lit ''EduChain Educational Content Server'') = Inr mcp \<longrightarrow>
          EduChainMCPServer libs env =
            Inr \<lparr>gemini_model = Some gm, educhain_client = Some client, mcp_server = Some mcp\<rparr>
          \<and> main libs env =
              Serving (mcp\<lparr>tools := tools mcp @
                               [''generate_mcq'', ''generate_lesson_plan'',
                                ''generate_flashcards''],
                            resources := resources mcp @
                               [''educhain://topic/{topic}'',
                                ''educhain://questions/{topic}'']\<rparr>))"
proof (intro conjI allI impI)
  assume unset: "env ''GOOGLE_API_KEY'' = None \<or> env ''GOOGLE_API_KEY'' = Some []"
  then show init: "EduChainMCPServer libs env =
        Inl (ValueError (lit ''GOOGLE_API_KEY environment variable not set''))"
    by (auto simp add: EduChainMCPServer_def initialize_components_def)
  then show "main libs env = Exit 1"
    by (simp add: main_def)
next
  fix k e
  assume "env ''GOOGLE_API_KEY'' = Some k \<and> k \<noteq> []
          \<and> ChatGoogleGenerativeAI libs
               \<lparr>model = lit ''gemini-2.0-flash-exp'', google_api_key = k,
                temperature = 7 / 10, max_tokens = 2048\<rparr> = Inl e"
  then show "EduChainMCPServer libs env = Inl e"
    by (simp add: EduChainMCPServer_def initialize_components_def)
next
  fix k gm cfg client mcp
  assume ok: "env ''GOOGLE_API_KEY'' = Some k \<and> k \<noteq> []
          \<and> ChatGoogleGenerativeAI libs
               \<lparr>model = lit ''gemini-2.0-flash-exp'', google_api_key = k,
                temperature = 7 / 10, max_tokens = 2048\<rparr> = Inr gm
          \<and> LLMConfig libs gm = Inr cfg
          \<and> Educhain libs cfg = Inr client
          \<and> FastMCP libs (lit ''EduChain Educational Content Server'') = Inr mcp"
  then show init: "EduChainMCPServer libs env =
            Inr \<lparr>gemini_model = Some gm, educhain_client = Some client, mcp_server = Some mcp\<rparr>"
    by (simp add: EduChainMCPServer_def initialize_components_def)
  show "main libs env =
              Serving (mcp\<lparr>tools := tools mcp @
                               [''generate_mcq'', ''generate_lesson_plan'',
                                ''generate_flashcards''],
                            resources := resources mcp @
                               [''educhain://topic/{topic}'',
                                ''educhain://questions/{topic}'']\<rparr>)"
    by (simp add: main_def init run_server_def setup_tools_def setup_resources_def
        register_tool_def register_resource_def)
qed

theorem missing_api_key_stops_startup_witness:
  "main stub_libraries Map.empty = Exit 1
   \<and> EduChainMCPServer stub_libraries Map.empty =
       Inl (ValueError (lit ''GOOGLE_API_KEY environment variable not set''))
   \<and> main stub_libraries [''GOOGLE_API_KEY'' \<mapsto> []] = Exit 1
   \<and> EduChainMCPServer
         (stub_libraries\<lparr>ChatGoogleGenerativeAI := \<lambda>s. Inl (EngineError (lit ''bad key''))\<rparr>)
         [''GOOGLE_API_KEY'' \<mapsto> lit ''k1''] = Inl (EngineError (lit ''bad key''))
   \<and> main stub_libraries [''GOOGLE_API_KEY'' \<mapsto> lit ''k1''] =
       Serving \<lparr>server_name = lit ''EduChain Educational Content Server'',
                tools = [''generate_mcq'', ''generate_lesson_plan'', ''generate_flashcards''],
                resources = [''educhain://topic/{topic}'', ''educhain://questions/{topic}'']\<rparr>"
  using
    missing_api_key_stops_startup [of Map.empty stub_libraries]
    missing_api_key_stops_startup [of "[''GOOGLE_API_KEY'' \<mapsto> []]" stub_libraries]
    missing_api_key_stops_startup
      [of "[''GOOGLE_API_KEY'' \<mapsto> lit ''k1'']"
          "stub_libraries\<lparr>ChatGoogleGenerativeAI := \<lambda>s. Inl (EngineError (lit ''bad key''))\<rparr>"]
    missing_api_key_stops_startup [of "[''GOOGLE_API_KEY'' \<mapsto> lit ''k1'']" stub_libraries]
  by (simp add: stub_libraries_def lit_def)

section \<open>Blank topics in the resource operations\<close>

text \<open>
  Claim C1 at the topic of a single space, with an engine that answers. The claim asks
  every operation to fail without an engine call. \<open>generate_lesson_plan\<close> does: it
  returns the failure mapping with \<open>Topic cannot be empty\<close> and calls nothing. The two
  resource operations carry no such check: \<open>get_topic_overview\<close>, which wraps the same
  lesson-plan call, and \<open>get_sample_questions\<close> each call the engine with the blank
  topic and return rendered content instead of their failure text.
\<close>
theorem blank_topic_reaches_engine_in_resources:
  "strip [32] = []
   \<and> generate_lesson_plan stub_client [32] (lit ''45 minutes'') (lit ''High School'') None =
       (JDict [(''success'', JBool False), (''error'', JStr (lit ''Topic cannot be empty'')),
               (''topic'', JStr [32])], [])
   \<and> snd (get_topic_overview stub_client [32]) =
       [GenerateLessonPlan
          \<lparr>l_topic = [32], l_duration = lit ''Overview'', l_grade_level = lit ''General'',
           l_learning_objectives = None\<rparr>]
   \<and> take 33 (fst (get_topic_overview stub_client [32])) =
       nl @ indent @ lit ''Topic Overview: ''
   \<and> take 6 (fst (get_topic_overview stub_client [32])) \<noteq> lit ''Error ''
   \<and> snd (get_sample_questions stub_client [32]) =
       [GenerateQuestions
          \<lparr>q_topic = [32], q_num = 3, q_question_type = lit ''Multiple Choice'',
           q_difficulty_level = lit ''Medium'', q_custom_instructions = None,
           q_prompt_template = None\<rparr>]
   \<and> take 22 (fst (get_sample_questions stub_client [32])) = lit ''Sample Questions for: ''
   \<and> take 6 (fst (get_sample_questions stub_client [32])) \<noteq> lit ''Error ''"
proof -
  have blank: "strip [32] = []"
    by (simp add: strip_def lstrip_def rstrip_def py_isspace_def)
  have tool: "generate_lesson_plan stub_client [32] (lit ''45 minutes'') (lit ''High School'') None =
       (JDict [(''success'', JBool False), (''error'', JStr (lit ''Topic cannot be empty'')),
               (''topic'', JStr [32])], [])"
    using blank by (rule generate_lesson_plan_blank)
  have overview: "take 33 (fst (get_topic_overview stub_client [32])) =
       nl @ indent @ lit ''Topic Overview: ''"
    "take 6 (fst (get_topic_overview stub_client [32])) \<noteq> lit ''Error ''"
    by (simp_all add: get_topic_overview_def engine_generate_lesson_plan_def stub_client_def
        nl_def indent_def lit_def)
  have sample: "take 22 (fst (get_sample_questions stub_client [32])) = lit ''Sample Questions for: ''"
    "take 6 (fst (get_sample_questions stub_client [32])) \<noteq> lit ''Error ''"
    by (simp_all add: get_sample_questions_def generate_questions_def stub_client_def
        render_questions_eq lit_def)
  show ?thesis
    using blank tool overview sample
    by (simp add: get_topic_overview_calls get_sample_questions_calls)
qed

end
